theory Spec2Isabelle
  imports Complex_Main "HOL-Library.AList"
begin

section \<open>Data model (types.ts)\<close>

text \<open>
  The string-literal unions \<open>TerrainType\<close> and \<open>ResourceType\<close> are closed enumerations whose
  values are only ever written by \<open>generateTile\<close>; they are datatypes, and
  \<open>ResourceType_name\<close> gives the string a resource kind is at run time (\<open>gather\<close> compares
  it with a requested string). \<open>ItemType\<close> is only used for \<open>Tile.structure\<close>, which
  \<open>build\<close> fills through the unchecked cast \<open>structure as ItemType\<close>, so that field holds a
  string. Numbers are JavaScript numbers that only ever hold integers here; they are \<open>int\<close>.
\<close>

datatype TerrainType = Grass | Forest | Mountain | Water | Desert

datatype ResourceType = Wood | Stone | Sand | Food

fun ResourceType_name :: "ResourceType \<Rightarrow> string" where
  "ResourceType_name Wood = ''wood''"
| "ResourceType_name Stone = ''stone''"
| "ResourceType_name Sand = ''sand''"
| "ResourceType_name Food = ''food''"

type_synonym ItemType = string

record Position =
  px :: int
  py :: int

record Tile =
  terrain :: TerrainType
  resource :: "ResourceType option"
  resourceAmount :: "int option"
  structure_t :: "ItemType option"

text \<open>
  An \<open>Inventory\<close> is a JavaScript object used as a dictionary. It is an association list in
  insertion order: assigning to an existing key keeps its place, assigning to a new key
  appends it (\<open>AList.update\<close>), and \<open>delete\<close> removes the entry (\<open>AList.delete\<close>).
  Keys that name properties of \<open>Object.prototype\<close> are outside the model.
\<close>

type_synonym Inventory = "(string \<times> int) list"

record AgentState =
  position :: Position
  inventory :: Inventory
  isActive :: bool

record GameWorld =
  size_w :: int
  grid :: "Tile list list"
  agent :: AgentState

text \<open>\<open>TileInfo\<close>: position, relativePosition, terrain, resource, resourceAmount, structure.\<close>

datatype TileInfo =
  TileInfo Position Position TerrainType "ResourceType option" "int option" "ItemType option"

text \<open>The \<open>data\<close> payloads that the tools build, one constructor per shape.\<close>

datatype ToolData =
    PositionData Position
  | TilesData "TileInfo list" Position
  | GatherData string int
  | CraftData string
  | BuildData string Position
  | InventoryData "(string \<times> int) list"

record ToolResult =
  success :: bool
  message :: string
  data :: "ToolData option"

section \<open>Rendering numbers and joining strings\<close>

definition digits :: string where
  "digits = ''0123456789''"

fun show_nat :: "nat \<Rightarrow> string" where
  "show_nat n = (if n < 10 then [digits ! n] else show_nat (n div 10) @ [digits ! (n mod 10)])"

declare show_nat.simps [simp del]

definition show_int :: "int \<Rightarrow> string" where
  "show_int i = (if i < 0 then ''-'' @ show_nat (nat (- i)) else show_nat (nat i))"

fun join :: "string \<Rightarrow> string list \<Rightarrow> string" where
  "join sep [] = []"
| "join sep [s] = s"
| "join sep (s # t # ts) = s @ sep @ join sep (t # ts)"

text \<open>JavaScript truthiness of an optional number and of an optional string.\<close>

definition truthy_num :: "int option \<Rightarrow> bool" where
  "truthy_num v = (case v of None \<Rightarrow> False | Some n \<Rightarrow> n \<noteq> 0)"

definition truthy_str :: "string option \<Rightarrow> bool" where
  "truthy_str v = (case v of None \<Rightarrow> False | Some s \<Rightarrow> s \<noteq> [])"

section \<open>The world (game.ts)\<close>

definition gridSize :: int where
  "gridSize = 20"

text \<open>
  \<open>generateTile\<close> derives its pseudo-random value from
  \<open>Math.sin(x * 12.9898 + y * 78.233) * 43758.5453\<close>, a floating-point computation. The
  embedding takes that value as the parameter \<open>seed_of x y\<close> and keeps everything the
  function does with it: the fractional part, the border band, the thresholds and the
  starting quantities.
\<close>

definition generateTile :: "(int \<Rightarrow> int \<Rightarrow> real) \<Rightarrow> int \<Rightarrow> int \<Rightarrow> Tile" where
  "generateTile seed_of x y =
     (let seed = seed_of x y;
          random = seed - of_int \<lfloor>seed\<rfloor>
      in if x < 2 \<or> x \<ge> gridSize - 2 \<or> y < 2 \<or> y \<ge> gridSize - 2 then
           (if random < 0.3
            then \<lparr>terrain = Water, resource = None, resourceAmount = None, structure_t = None\<rparr>
            else \<lparr>terrain = Grass, resource = None, resourceAmount = None, structure_t = None\<rparr>)
         else if random < 0.2 then
           \<lparr>terrain = Forest, resource = Some Wood,
            resourceAmount = Some (\<lfloor>random * 20\<rfloor> + 5), structure_t = None\<rparr>
         else if random < 0.35 then
           \<lparr>terrain = Mountain, resource = Some Stone,
            resourceAmount = Some (\<lfloor>random * 15\<rfloor> + 3), structure_t = None\<rparr>
         else if random < 0.45 then
           \<lparr>terrain = Desert, resource = Some Sand,
            resourceAmount = Some (\<lfloor>random * 10\<rfloor> + 2), structure_t = None\<rparr>
         else if random > 0.8 then
           \<lparr>terrain = Grass, resource = Some Food,
            resourceAmount = Some (\<lfloor>random * 5\<rfloor> + 1), structure_t = None\<rparr>
         else \<lparr>terrain = Grass, resource = None, resourceAmount = None, structure_t = None\<rparr>)"

definition createWorld :: "(int \<Rightarrow> int \<Rightarrow> real) \<Rightarrow> GameWorld" where
  "createWorld seed_of =
     \<lparr>size_w = gridSize,
      grid = map (\<lambda>y. map (\<lambda>x. generateTile seed_of (int x) (int y)) [0..<nat gridSize])
                 [0..<nat gridSize],
      agent = \<lparr>position = \<lparr>px = 10, py = 10\<rparr>, inventory = [], isActive = False\<rparr>\<rparr>"

definition isValidPosition :: "Position \<Rightarrow> bool" where
  "isValidPosition pos \<longleftrightarrow> px pos \<ge> 0 \<and> px pos < gridSize \<and> py pos \<ge> 0 \<and> py pos < gridSize"

definition getTileAt :: "GameWorld \<Rightarrow> Position \<Rightarrow> Tile option" where
  "getTileAt w pos =
     (if isValidPosition pos then Some (grid w ! nat (py pos) ! nat (px pos)) else None)"

text \<open>
  The tile objects of the grid are pairwise distinct (each comes from its own call of
  \<open>generateTile\<close>), so writing a field of the tile found by \<open>getTileAt\<close> changes exactly the
  grid cell at that position.
\<close>

definition setTileAt :: "GameWorld \<Rightarrow> Position \<Rightarrow> Tile \<Rightarrow> GameWorld" where
  "setTileAt w pos t =
     w\<lparr>grid := (grid w)[nat (py pos) := (grid w ! nat (py pos))[nat (px pos) := t]]\<rparr>"

definition setAgentPosition :: "GameWorld \<Rightarrow> Position \<Rightarrow> bool \<times> GameWorld" where
  "setAgentPosition w pos =
     (if isValidPosition pos then
        (case getTileAt w pos of
           Some tile \<Rightarrow>
             if terrain tile \<noteq> Water then (True, w\<lparr>agent := (agent w)\<lparr>position := pos\<rparr>\<rparr>)
             else (False, w)
         | None \<Rightarrow> (False, w))
      else (False, w))"

text \<open>
  \<open>addToInventory\<close>: a missing or zero entry is first set to 0, then the amount is added.
  After the first step the key is present, so the \<open>None\<close> branch below is never taken.
\<close>

definition addToInventory :: "GameWorld \<Rightarrow> string \<Rightarrow> int \<Rightarrow> GameWorld" where
  "addToInventory w item amount =
     (let inv0 = inventory (agent w);
          inv1 = (if \<not> truthy_num (map_of inv0 item) then AList.update item 0 inv0 else inv0);
          inv2 = (case map_of inv1 item of
                    Some c \<Rightarrow> AList.update item (c + amount) inv1
                  | None \<Rightarrow> inv1)
      in w\<lparr>agent := (agent w)\<lparr>inventory := inv2\<rparr>\<rparr>)"

text \<open>\<open>removeFromInventory\<close>: \<open>undefined >= amount\<close> is false, so a missing key fails.\<close>

definition removeFromInventory :: "GameWorld \<Rightarrow> string \<Rightarrow> int \<Rightarrow> bool \<times> GameWorld" where
  "removeFromInventory w item amount =
     (let inv0 = inventory (agent w)
      in case map_of inv0 item of
           None \<Rightarrow> (False, w)
         | Some c \<Rightarrow>
             if c \<ge> amount then
               (let inv1 = AList.update item (c - amount) inv0;
                    inv2 = (if c - amount = 0 then AList.delete item inv1 else inv1)
                in (True, w\<lparr>agent := (agent w)\<lparr>inventory := inv2\<rparr>\<rparr>))
             else (False, w))"

definition hasInInventory :: "GameWorld \<Rightarrow> string \<Rightarrow> int \<Rightarrow> bool" where
  "hasInInventory w item amount \<longleftrightarrow>
     (let v = map_of (inventory (agent w)) item
      in (if truthy_num v then (case v of Some c \<Rightarrow> c | None \<Rightarrow> 0) else 0) \<ge> amount)"

definition removeResourceFromTile :: "GameWorld \<Rightarrow> Position \<Rightarrow> int \<Rightarrow> bool \<times> GameWorld" where
  "removeResourceFromTile w pos amount =
     (case getTileAt w pos of
        None \<Rightarrow> (False, w)
      | Some tile \<Rightarrow>
          (case resourceAmount tile of
             None \<Rightarrow> (False, w)
           | Some q \<Rightarrow>
               if resource tile \<noteq> None \<and> q \<noteq> 0 \<and> q \<ge> amount then
                 (let tile1 = tile\<lparr>resourceAmount := Some (q - amount)\<rparr>;
                      tile2 = (if q - amount = 0
                               then tile1\<lparr>resource := None, resourceAmount := None\<rparr>
                               else tile1)
                  in (True, setTileAt w pos tile2))
               else (False, w)))"

definition placeStructure :: "GameWorld \<Rightarrow> Position \<Rightarrow> ItemType \<Rightarrow> bool \<times> GameWorld" where
  "placeStructure w pos structure_k =
     (case getTileAt w pos of
        None \<Rightarrow> (False, w)
      | Some tile \<Rightarrow>
          if \<not> truthy_str (structure_t tile) \<and> terrain tile \<noteq> Water
          then (True, setTileAt w pos (tile\<lparr>structure_t := Some structure_k\<rparr>))
          else (False, w))"

definition reset :: "(int \<Rightarrow> int \<Rightarrow> real) \<Rightarrow> GameWorld \<Rightarrow> GameWorld" where
  "reset seed_of w = createWorld seed_of"

section \<open>The action catalog (tools.ts)\<close>

text \<open>Every tool returns its outcome record together with the world it leaves behind.\<close>

definition validDirections :: "string list" where
  "validDirections = [''north'', ''south'', ''east'', ''west'']"

definition move :: "GameWorld \<Rightarrow> string \<Rightarrow> ToolResult \<times> GameWorld" where
  "move w direction =
     (if direction \<notin> set validDirections then
        (\<lparr>success = False,
          message = ''Invalid direction: '' @ direction @ ''. Must be one of: ''
                    @ join '', '' validDirections,
          data = None\<rparr>, w)
      else
        (let currentPos = position (agent w);
             newPos = (if direction = ''north'' then currentPos\<lparr>py := py currentPos - 1\<rparr>
                       else if direction = ''south'' then currentPos\<lparr>py := py currentPos + 1\<rparr>
                       else if direction = ''east'' then currentPos\<lparr>px := px currentPos + 1\<rparr>
                       else if direction = ''west'' then currentPos\<lparr>px := px currentPos - 1\<rparr>
                       else currentPos)
         in case setAgentPosition w newPos of
              (True, w') \<Rightarrow>
                (\<lparr>success = True,
                  message = ''Moved '' @ direction @ '' to position ('' @ show_int (px newPos)
                            @ '', '' @ show_int (py newPos) @ '')'',
                  data = Some (PositionData newPos)\<rparr>, w')
            | (False, w') \<Rightarrow>
                (\<lparr>success = False,
                  message = ''Cannot move '' @ direction @ '' - obstacle or boundary in the way'',
                  data = None\<rparr>, w')))"

definition viewRadius :: int where
  "viewRadius = 2"

definition look :: "GameWorld \<Rightarrow> ToolResult \<times> GameWorld" where
  "look w =
     (let pos = position (agent w);
          visible = concat (map (\<lambda>dy. concat (map (\<lambda>dx.
                      (let checkPos = \<lparr>px = px pos + dx, py = py pos + dy\<rparr>
                       in case getTileAt w checkPos of
                            Some tile \<Rightarrow>
                              [TileInfo checkPos \<lparr>px = dx, py = dy\<rparr> (terrain tile)
                                 (resource tile) (resourceAmount tile) (structure_t tile)]
                          | None \<Rightarrow> []))
                      [- viewRadius..viewRadius])) [- viewRadius..viewRadius])
      in (\<lparr>success = True,
           message = ''Looking around position ('' @ show_int (px pos) @ '', ''
                     @ show_int (py pos) @ '')'',
           data = Some (TilesData visible pos)\<rparr>, w))"

definition gather :: "GameWorld \<Rightarrow> string \<Rightarrow> ToolResult \<times> GameWorld" where
  "gather w resource_k =
     (let pos = position (agent w);
          unavailable = (\<lparr>success = False,
                          message = ''No '' @ resource_k @ '' available at current position'',
                          data = None\<rparr>, w)
      in case getTileAt w pos of
           None \<Rightarrow> (\<lparr>success = False, message = ''Invalid position'', data = None\<rparr>, w)
         | Some tile \<Rightarrow>
             (case resourceAmount tile of
                None \<Rightarrow> unavailable
              | Some q \<Rightarrow>
                  if map_option ResourceType_name (resource tile) = Some resource_k
                     \<and> q \<noteq> 0 \<and> q > 0 then
                    (let amountToGather = min 5 q;
                         w1 = snd (removeResourceFromTile w pos amountToGather);
                         w2 = addToInventory w1 resource_k amountToGather
                     in (\<lparr>success = True,
                          message = ''Gathered '' @ show_int amountToGather @ '' '' @ resource_k,
                          data = Some (GatherData resource_k amountToGather)\<rparr>, w2))
                  else unavailable))"

text \<open>
  \<open>craft\<close> and \<open>build\<close> run the same two loops over the entries of a recipe: the first
  returns at the first resource that is short, the second debits every entry.
\<close>

definition firstShort :: "GameWorld \<Rightarrow> (string \<times> int) list \<Rightarrow> (string \<times> int) option" where
  "firstShort w recipe = find (\<lambda>(resource_k, amount). \<not> hasInInventory w resource_k amount) recipe"

definition consume :: "(string \<times> int) list \<Rightarrow> GameWorld \<Rightarrow> GameWorld" where
  "consume recipe w =
     fold (\<lambda>(resource_k, amount) w'. snd (removeFromInventory w' resource_k amount)) recipe w"

definition recipes :: "(string \<times> (string \<times> int) list) list" where
  "recipes =
     [(''axe'', [(''wood'', 3), (''stone'', 2)]),
      (''pickaxe'', [(''wood'', 2), (''stone'', 3)]),
      (''campfire'', [(''wood'', 5), (''stone'', 3)])]"

definition craft :: "GameWorld \<Rightarrow> string \<Rightarrow> ToolResult \<times> GameWorld" where
  "craft w item =
     (case map_of recipes item of
        None \<Rightarrow>
          (\<lparr>success = False,
            message = ''Unknown item: '' @ item @ ''. Available items: ''
                      @ join '', '' (map fst recipes),
            data = None\<rparr>, w)
      | Some recipe \<Rightarrow>
          (case firstShort w recipe of
             Some (resource_k, amount) \<Rightarrow>
               (\<lparr>success = False,
                 message = ''Need '' @ show_int amount @ '' '' @ resource_k @ '' to craft '' @ item
                           @ '', but only have ''
                           @ show_int (let v = map_of (inventory (agent w)) resource_k
                                       in if truthy_num v then (case v of Some c \<Rightarrow> c | None \<Rightarrow> 0)
                                          else 0),
                 data = None\<rparr>, w)
           | None \<Rightarrow>
               (let w1 = consume recipe w;
                    w2 = addToInventory w1 item 1
                in (\<lparr>success = True, message = ''Crafted '' @ item,
                     data = Some (CraftData item)\<rparr>, w2))))"

definition buildRequirements :: "(string \<times> (string \<times> int) list) list" where
  "buildRequirements =
     [(''shelter'', [(''wood'', 10), (''stone'', 5)]),
      (''campfire'', [(''wood'', 3), (''stone'', 2)])]"

definition build :: "GameWorld \<Rightarrow> string \<Rightarrow> ToolResult \<times> GameWorld" where
  "build w structure_k =
     (case map_of buildRequirements structure_k of
        None \<Rightarrow>
          (\<lparr>success = False,
            message = ''Unknown structure: '' @ structure_k @ ''. Available: ''
                      @ join '', '' (map fst buildRequirements),
            data = None\<rparr>, w)
      | Some requirements \<Rightarrow>
          (case firstShort w requirements of
             Some (resource_k, amount) \<Rightarrow>
               (\<lparr>success = False,
                 message = ''Need '' @ show_int amount @ '' '' @ resource_k @ '' to build ''
                           @ structure_k,
                 data = None\<rparr>, w)
           | None \<Rightarrow>
               (let pos = position (agent w)
                in case placeStructure w pos structure_k of
                     (False, w1) \<Rightarrow>
                       (\<lparr>success = False,
                         message = ''Cannot build here - location occupied or invalid'',
                         data = None\<rparr>, w1)
                   | (True, w1) \<Rightarrow>
                       (let w2 = consume requirements w1
                        in (\<lparr>success = True,
                             message = ''Built '' @ structure_k @ '' at position (''
                                       @ show_int (px pos) @ '', '' @ show_int (py pos) @ '')'',
                             data = Some (BuildData structure_k pos)\<rparr>, w2)))))"

definition getInventory :: "GameWorld \<Rightarrow> ToolResult \<times> GameWorld" where
  "getInventory w =
     (let items = inventory (agent w)
      in (\<lparr>success = True,
           message = ''Inventory contains '' @ show_nat (length items) @ '' item types'',
           data = Some (InventoryData items)\<rparr>, w))"

section \<open>The orchestration loop (agent.ts)\<close>

datatype LogType = Info | Success | Error

type_synonym LogEntry = "string \<times> LogType"

text \<open>
  The argument mapping of a requested operation: the action schema restricts every argument
  to a string, so \<open>String(args.k || "")\<close> is the stored string, or the empty string when the
  key is missing.
\<close>

type_synonym Args = "(string \<times> string) list"

definition arg :: "Args \<Rightarrow> string \<Rightarrow> string" where
  "arg args k = (case map_of args k of Some s \<Rightarrow> s | None \<Rightarrow> [])"

datatype GeminiFunctionCall = GeminiFunctionCall (call_name: string) (call_args: Args)

text \<open>
  A part of a turn is a \<open>GeminiPart\<close> (optional text, optional function call) or a
  \<open>GeminiFunctionResponse\<close> (operation name and outcome).
\<close>

datatype ContentPart =
    GeminiPart "string option" "GeminiFunctionCall option"
  | GeminiFunctionResponse string ToolResult

datatype Role = User | Model

record GeminiContent =
  role :: Role
  parts :: "ContentPart list"

text \<open>
  What one call of \<open>callGemini\<close> can do: throw (a transport or HTTP error, rendered by
  \<open>${error}\<close>), or return the first candidate's content, which may be undefined.
\<close>

datatype ServiceReply = Threw string | Returned "GeminiContent option"

text \<open>
  The environment of a run. \<open>reply n h\<close> is what the external service answers in round \<open>n\<close>
  to the conversation \<open>h\<close>. The loop suspends at the service call and at the pause between
  rounds; \<open>stopDuringCall n\<close> and \<open>stopDuringPause n\<close> say whether the host calls \<open>stop()\<close>
  while round \<open>n\<close> is suspended there. \<open>stringify\<close> is the platform's \<open>JSON.stringify\<close>.
  A reset of the world while a round is suspended is not modelled.
\<close>

record Env =
  reply :: "nat \<Rightarrow> GeminiContent list \<Rightarrow> ServiceReply"
  stopDuringCall :: "nat \<Rightarrow> bool"
  stopDuringPause :: "nat \<Rightarrow> bool"
  stringify :: "Args \<Rightarrow> string"

text \<open>
  The fields of \<open>Agent\<close>, with the world of its \<open>Game\<close> and the messages handed to the
  \<open>onLog\<close> callback so far.
\<close>

record Agent =
  game :: GameWorld
  isRunning :: bool
  conversationHistory :: "GeminiContent list"
  apiKey :: string
  logged :: "LogEntry list"

definition maxIterations :: nat where
  "maxIterations = 30"

definition onLog :: "Agent \<Rightarrow> string \<Rightarrow> LogType \<Rightarrow> Agent" where
  "onLog a msg ty = a\<lparr>logged := logged a @ [(msg, ty)]\<rparr>"

definition newAgent :: "GameWorld \<Rightarrow> Agent" where
  "newAgent w =
     \<lparr>game = w, isRunning = False, conversationHistory = [], apiKey = [], logged = []\<rparr>"

definition setApiKey :: "Agent \<Rightarrow> string \<Rightarrow> Agent" where
  "setApiKey a key = a\<lparr>apiKey := key\<rparr>"

definition stop :: "Agent \<Rightarrow> Agent" where
  "stop a = onLog (a\<lparr>isRunning := False\<rparr>) ''Agent stopped'' Info"

definition newline :: string where
  "newline = [CHR 0x0A]"

definition systemPrompt :: "string \<Rightarrow> string" where
  "systemPrompt goal = join newline
     [''You are an AI agent in a grid-based resource world. Your goal is: '' @ goal,
      [],
      ''You have access to tools to interact with the world. Use them strategically to accomplish your goal.'',
      [],
      ''The world consists of:'',
      ''- Grass: Open terrain, may have food'',
      ''- Forest: Contains wood (gather with 'gather' tool)'',
      ''- Mountain: Contains stone (gather with 'gather' tool)'',
      ''- Desert: Contains sand (gather with 'gather' tool)'',
      ''- Water: Cannot walk through'',
      [],
      ''Available actions:'',
      ''- move: Navigate the world'',
      ''- look: Observe your surroundings'',
      ''- gather: Collect resources from your current tile'',
      ''- craft: Create items from resources'',
      ''- build: Construct structures'',
      ''- getInventory: Check what you're carrying'',
      [],
      ''Start by using 'look' to understand your surroundings, then plan your actions to achieve the goal.'',
      ''Be efficient and strategic. If you accomplish the goal, explain what you did.'']"

definition extractFunctionCalls :: "GeminiContent \<Rightarrow> GeminiFunctionCall list" where
  "extractFunctionCalls content =
     concat (map (\<lambda>part. case part of
                            GeminiPart t (Some fc) \<Rightarrow> [fc]
                          | _ \<Rightarrow> [])
                 (parts content))"

fun firstText :: "ContentPart list \<Rightarrow> string" where
  "firstText [] = []"
| "firstText (GeminiPart (Some t) fc # ps) = (if t \<noteq> [] then t else firstText ps)"
| "firstText (p # ps) = firstText ps"

definition extractText :: "GeminiContent \<Rightarrow> string" where
  "extractText content = firstText (parts content)"

definition toolNames :: "string list" where
  "toolNames = [''move'', ''look'', ''gather'', ''craft'', ''build'', ''getInventory'']"

definition executeTool :: "Agent \<Rightarrow> string \<Rightarrow> Args \<Rightarrow> ToolResult \<times> Agent" where
  "executeTool a name args =
     (if name = ''move'' then
        (let (result, w) = move (game a) (arg args ''direction'') in (result, a\<lparr>game := w\<rparr>))
      else if name = ''look'' then
        (let (result, w) = look (game a) in (result, a\<lparr>game := w\<rparr>))
      else if name = ''gather'' then
        (let (result, w) = gather (game a) (arg args ''resource'') in (result, a\<lparr>game := w\<rparr>))
      else if name = ''craft'' then
        (let (result, w) = craft (game a) (arg args ''item'') in (result, a\<lparr>game := w\<rparr>))
      else if name = ''build'' then
        (let (result, w) = build (game a) (arg args ''structure'') in (result, a\<lparr>game := w\<rparr>))
      else if name = ''getInventory'' then
        (let (result, w) = getInventory (game a) in (result, a\<lparr>game := w\<rparr>))
      else (\<lparr>success = False, message = ''Unknown tool: '' @ name, data = None\<rparr>, a))"

text \<open>
  The \<open>for\<close> loop over the requested operations of one round: each is executed, its
  response is pushed onto \<open>functionResponses\<close>, and its outcome is logged.
\<close>

fun executeCalls ::
  "Env \<Rightarrow> GeminiFunctionCall list \<Rightarrow> Agent \<Rightarrow> ContentPart list \<Rightarrow> Agent \<times> ContentPart list" where
  "executeCalls env [] a functionResponses = (a, functionResponses)"
| "executeCalls env (call # calls) a functionResponses =
     (let (result, a1) = executeTool a (call_name call) (call_args call);
          functionResponses1 = functionResponses @ [GeminiFunctionResponse (call_name call) result];
          status = (if success result then Success else Error);
          a2 = onLog a1 (call_name call @ ''('' @ stringify env (call_args call) @ ''): ''
                         @ message result) status
      in executeCalls env calls a2 functionResponses1)"

text \<open>
  One pass through the body of the \<open>while\<close> loop of \<open>runLoop\<close>, for the already incremented
  iteration counter. The result says whether the body ended in a \<open>break\<close>.
\<close>

datatype LoopControl = Continue | Break

definition round :: "Env \<Rightarrow> nat \<Rightarrow> Agent \<Rightarrow> LoopControl \<times> Agent" where
  "round env iteration a0 =
     (let a1 = onLog a0 (''--- Iteration '' @ show_nat iteration @ '' ---'') Info;
          r = reply env iteration (conversationHistory a1);
          a2 = (if stopDuringCall env iteration then stop a1 else a1)
      in case r of
           Threw e \<Rightarrow> (Break, onLog a2 (''Error: '' @ e) Error)
         | Returned None \<Rightarrow> (Break, onLog a2 ''No response from Gemini'' Error)
         | Returned (Some response) \<Rightarrow>
             (let functionCalls = extractFunctionCalls response
              in if functionCalls = [] then
                   (let textResponse = extractText response;
                        a3 = (if textResponse \<noteq> []
                              then onLog a2 (''Agent: '' @ textResponse) Success else a2)
                    in (Break, onLog a3 ''Agent completed its task'' Success))
                 else
                   (let (a3, functionResponses) = executeCalls env functionCalls a2 [];
                        a4 = a3\<lparr>conversationHistory := conversationHistory a3 @
                               [\<lparr>role = Model,
                                 parts = map (\<lambda>call. GeminiPart None (Some call)) functionCalls\<rparr>]\<rparr>;
                        a5 = a4\<lparr>conversationHistory := conversationHistory a4 @
                               [\<lparr>role = User, parts = functionResponses\<rparr>]\<rparr>;
                        a6 = (if stopDuringPause env iteration then stop a5 else a5)
                    in (Continue, a6))))"

text \<open>The \<open>while\<close> loop; it returns the final value of the iteration counter as well.\<close>

function runLoop_while :: "Env \<Rightarrow> nat \<Rightarrow> Agent \<Rightarrow> nat \<times> Agent" where
  "runLoop_while env iteration a =
     (if isRunning a \<and> iteration < maxIterations then
        (case round env (iteration + 1) a of
           (Break, a') \<Rightarrow> (iteration + 1, a')
         | (Continue, a') \<Rightarrow> runLoop_while env (iteration + 1) a')
      else (iteration, a))"
  by pat_completeness auto
termination
  by (relation "measure (\<lambda>(env, iteration, a). maxIterations - iteration)") auto

declare runLoop_while.simps [simp del]

text \<open>What \<open>runLoop\<close> does after the \<open>while\<close> loop, given the final counter and agent.\<close>

definition finishLoop :: "nat \<times> Agent \<Rightarrow> Agent" where
  "finishLoop r =
     (let (iteration, a1) = r;
          a2 = (if iteration \<ge> maxIterations
                then onLog a1 ''Reached maximum iterations'' Info else a1)
      in a2\<lparr>isRunning := False\<rparr>)"

definition runLoop :: "Env \<Rightarrow> Agent \<Rightarrow> Agent" where
  "runLoop env a = finishLoop (runLoop_while env 0 a)"

definition start :: "Env \<Rightarrow> string \<Rightarrow> Agent \<Rightarrow> Agent" where
  "start env goal a =
     (if apiKey a = [] then onLog a ''Error: API key not provided'' Error
      else
        (let a1 = a\<lparr>isRunning := True\<rparr>;
             a2 = a1\<lparr>conversationHistory := []\<rparr>;
             a3 = onLog a2 (''Starting agent with goal: '' @ goal) Info;
             a4 = a3\<lparr>conversationHistory := conversationHistory a3 @
                    [\<lparr>role = User, parts = [GeminiPart (Some (systemPrompt goal)) None]\<rparr>]\<rparr>
         in runLoop env a4))"

section \<open>The host entry point (App.startAgent)\<close>

text \<open>
  \<open>App.startAgent\<close> reads the goal and the key from two input fields, trims both, and only
  calls \<open>Agent.start\<close> when neither is empty. Its log function is the sink that the agent's
  \<open>onLog\<close> writes to. \<open>trim\<close> is the platform's \<open>String.prototype.trim\<close>; the widgets that
  the function enables and disables are not part of the state.
\<close>

definition startAgent ::
  "(string \<Rightarrow> string) \<Rightarrow> Env \<Rightarrow> string \<Rightarrow> string \<Rightarrow> Agent \<Rightarrow> Agent" where
  "startAgent trim env goalInput apiKeyInput a =
     (let goal = trim goalInput;
          key = trim apiKeyInput
      in if goal = [] then onLog a ''Please enter a goal for the agent'' Error
         else if key = [] then onLog a ''Please enter your Gemini API key'' Error
         else start env goal (setApiKey a key))"

section \<open>Reachable states\<close>

text \<open>
  One step on the world: a call of a mutation primitive of \<open>Game\<close> or of a catalog
  operation, with any arguments.
\<close>

inductive world_step :: "(int \<Rightarrow> int \<Rightarrow> real) \<Rightarrow> GameWorld \<Rightarrow> GameWorld \<Rightarrow> bool"
  for seed_of :: "int \<Rightarrow> int \<Rightarrow> real" where
  step_setAgentPosition: "world_step seed_of w (snd (setAgentPosition w pos))"
| step_addToInventory: "world_step seed_of w (addToInventory w item amount)"
| step_removeFromInventory: "world_step seed_of w (snd (removeFromInventory w item amount))"
| step_removeResourceFromTile: "world_step seed_of w (snd (removeResourceFromTile w pos amount))"
| step_placeStructure: "world_step seed_of w (snd (placeStructure w pos structure_k))"
| step_reset: "world_step seed_of w (reset seed_of w)"
| step_move: "world_step seed_of w (snd (move w direction))"
| step_look: "world_step seed_of w (snd (look w))"
| step_gather: "world_step seed_of w (snd (gather w resource_k))"
| step_craft: "world_step seed_of w (snd (craft w item))"
| step_build: "world_step seed_of w (snd (build w structure_k))"
| step_getInventory: "world_step seed_of w (snd (getInventory w))"

inductive reachable :: "(int \<Rightarrow> int \<Rightarrow> real) \<Rightarrow> GameWorld \<Rightarrow> bool"
  for seed_of :: "int \<Rightarrow> int \<Rightarrow> real" where
  fresh: "reachable seed_of (createWorld seed_of)"
| step: "reachable seed_of w \<Longrightarrow> world_step seed_of w w' \<Longrightarrow> reachable seed_of w'"

text \<open>
  One step on an agent and its world: a world step, \<open>setApiKey\<close>, \<open>stop\<close>, a whole run
  started by \<open>start\<close>, or a single round of the loop.
\<close>

inductive agent_step :: "(int \<Rightarrow> int \<Rightarrow> real) \<Rightarrow> Agent \<Rightarrow> Agent \<Rightarrow> bool"
  for seed_of :: "int \<Rightarrow> int \<Rightarrow> real" where
  step_world: "world_step seed_of (game a) w' \<Longrightarrow> agent_step seed_of a (a\<lparr>game := w'\<rparr>)"
| step_setApiKey: "agent_step seed_of a (setApiKey a key)"
| step_stop: "agent_step seed_of a (stop a)"
| step_start: "agent_step seed_of a (start env goal a)"
| step_round: "agent_step seed_of a (snd (round env iteration a))"

inductive agent_reachable :: "(int \<Rightarrow> int \<Rightarrow> real) \<Rightarrow> Agent \<Rightarrow> bool"
  for seed_of :: "int \<Rightarrow> int \<Rightarrow> real" where
  agent_fresh: "agent_reachable seed_of (newAgent (createWorld seed_of))"
| agent_next: "agent_reachable seed_of a \<Longrightarrow> agent_step seed_of a a' \<Longrightarrow> agent_reachable seed_of a'"

section \<open>Notions used by the properties\<close>

text \<open>A tile is consistent when its resource kind is present exactly if its quantity is positive.\<close>

definition tile_consistent :: "Tile \<Rightarrow> bool" where
  "tile_consistent t \<longleftrightarrow>
     (resource t \<noteq> None) = (case resourceAmount t of None \<Rightarrow> False | Some q \<Rightarrow> 0 < q)"

definition grid_consistent :: "Tile list list \<Rightarrow> bool" where
  "grid_consistent g \<longleftrightarrow> list_all (list_all tile_consistent) g"

text \<open>The grid is a square of \<open>gridSize\<close> rows of \<open>gridSize\<close> tiles.\<close>

definition grid_square :: "Tile list list \<Rightarrow> bool" where
  "grid_square g \<longleftrightarrow>
     length g = nat gridSize \<and> list_all (\<lambda>row. length row = nat gridSize) g"


text \<open>The coordinate next to \<open>pos\<close> in a direction; north is towards row 0.\<close>

definition adjacent :: "Position \<Rightarrow> string \<Rightarrow> Position" where
  "adjacent pos direction =
     (if direction = ''north'' then \<lparr>px = px pos, py = py pos - 1\<rparr>
      else if direction = ''south'' then \<lparr>px = px pos, py = py pos + 1\<rparr>
      else if direction = ''east'' then \<lparr>px = px pos + 1, py = py pos\<rparr>
      else \<lparr>px = px pos - 1, py = py pos\<rparr>)"

text \<open>What the inventory holds of a kind, reading a missing key as 0.\<close>

definition count_of :: "Inventory \<Rightarrow> string \<Rightarrow> int" where
  "count_of items k = (case map_of items k of Some c \<Rightarrow> c | None \<Rightarrow> 0)"

text \<open>
  The invariant of the world: the grid is square and consistent, the terrain of every cell is
  the generated one, the agent stands on a valid cell that is not water, and the
  \<open>isActive\<close> flag is off.
\<close>

definition world_inv :: "(int \<Rightarrow> int \<Rightarrow> real) \<Rightarrow> GameWorld \<Rightarrow> bool" where
  "world_inv seed_of w \<longleftrightarrow>
     grid_square (grid w) \<and> grid_consistent (grid w)
     \<and> (\<forall>pos. isValidPosition pos \<longrightarrow>
            (\<exists>t. getTileAt w pos = Some t
                 \<and> terrain t = terrain (generateTile seed_of (px pos) (py pos))))
     \<and> isValidPosition (position (agent w))
     \<and> (\<exists>t. getTileAt w (position (agent w)) = Some t \<and> terrain t \<noteq> Water)
     \<and> \<not> isActive (agent w)"

text \<open>
  Two sample values of the generator's parameter, for evaluating the model on concrete worlds:
  with \<open>forest_seed\<close> every interior tile is forest holding 8 wood and every border tile is
  water; with \<open>meadow_seed\<close> every tile is bare grass.
\<close>

definition forest_seed :: "int \<Rightarrow> int \<Rightarrow> real" where
  "forest_seed x y = 3 / 20"

definition meadow_seed :: "int \<Rightarrow> int \<Rightarrow> real" where
  "meadow_seed x y = 1 / 2"

text \<open>The log entry that opens round \<open>n\<close>.\<close>

abbreviation (input) header :: "nat \<Rightarrow> LogEntry" where
  "header n \<equiv> (''--- Iteration '' @ show_nat n @ '' ---'', Info)"

text \<open>The outcomes of all operations recorded in a conversation, in order.\<close>

definition functionResponses_of :: "GeminiContent list \<Rightarrow> ToolResult list" where
  "functionResponses_of h =
     concat (map (\<lambda>c. concat (map (\<lambda>p. case p of
                                          GeminiFunctionResponse n r \<Rightarrow> [r]
                                        | _ \<Rightarrow> [])
                                   (parts c))) h)"

text \<open>
  Sample environments, none of which ever stops the run from outside: in \<open>unknown_env\<close>
  every answer requests the operation \<open>fly\<close>, which the catalog does not have; in
  \<open>done_env\<close> every answer is a text without any request; in \<open>north_env\<close> the first answer
  requests a move to the north and every later answer is a text without any request.
\<close>

definition unknown_env :: Env where
  "unknown_env =
     \<lparr>reply = (\<lambda>n h. Returned (Some \<lparr>role = Model,
                 parts = [GeminiPart None (Some (GeminiFunctionCall ''fly'' []))]\<rparr>)),
      stopDuringCall = (\<lambda>n. False),
      stopDuringPause = (\<lambda>n. False),
      stringify = (\<lambda>args. ''{}'')\<rparr>"


definition north_env :: Env where
  "north_env =
     \<lparr>reply = (\<lambda>n h. if n = 1
                 then Returned (Some \<lparr>role = Model,
                        parts = [GeminiPart None
                          (Some (GeminiFunctionCall ''move'' [(''direction'', ''north'')]))]\<rparr>)
                 else Returned (Some \<lparr>role = Model,
                        parts = [GeminiPart (Some ''Done.'') None]\<rparr>)),
      stopDuringCall = (\<lambda>n. False),
      stopDuringPause = (\<lambda>n. False),
      stringify = (\<lambda>args. ''{'' @ [CHR 0x22] @ ''direction'' @ [CHR 0x22] @ '':'' @ [CHR 0x22]
                           @ ''north'' @ [CHR 0x22] @ ''}'')\<rparr>"

section \<open>Verified properties\<close>

subsection \<open>The generated world and tile updates\<close>

lemma generateTile_consistent: "tile_consistent (generateTile seed_of x y)"
proof -
  define r where "r = seed_of x y - of_int \<lfloor>seed_of x y\<rfloor>"
  have r0: "0 \<le> r" unfolding r_def by linarith
  have "0 \<le> \<lfloor>r * 20\<rfloor>" "0 \<le> \<lfloor>r * 15\<rfloor>" "0 \<le> \<lfloor>r * 10\<rfloor>" "0 \<le> \<lfloor>r * 5\<rfloor>"
    using r0 by simp_all
  then have f: "0 < \<lfloor>r * 20\<rfloor> + 5" "0 < \<lfloor>r * 15\<rfloor> + 3" "0 < \<lfloor>r * 10\<rfloor> + 2" "0 < \<lfloor>r * 5\<rfloor> + 1"
    by linarith+
  show ?thesis
    unfolding generateTile_def tile_consistent_def Let_def r_def[symmetric]
    using f by simp
qed

lemma generateTile_interior_dry:
  "2 \<le> x \<Longrightarrow> x < gridSize - 2 \<Longrightarrow> 2 \<le> y \<Longrightarrow> y < gridSize - 2 \<Longrightarrow>
   terrain (generateTile seed_of x y) \<noteq> Water"
  by (simp add: generateTile_def Let_def)

lemma createWorld_square: "grid_square (grid (createWorld seed_of))"
  by (simp add: createWorld_def grid_square_def list_all_iff)

lemma valid_nat:
  "isValidPosition pos \<Longrightarrow>
   nat (px pos) < 20 \<and> nat (py pos) < 20 \<and> 0 \<le> px pos \<and> 0 \<le> py pos"
  unfolding isValidPosition_def gridSize_def by linarith

lemma createWorld_tile:
  assumes "isValidPosition pos"
  shows "getTileAt (createWorld seed_of) pos = Some (generateTile seed_of (px pos) (py pos))"
proof -
  have "nat (px pos) < 20" "nat (py pos) < 20" "0 \<le> px pos" "0 \<le> py pos"
    using valid_nat[OF assms] by simp_all
  then show ?thesis
    using assms by (simp add: getTileAt_def createWorld_def gridSize_def)
qed

lemma createWorld_consistent: "grid_consistent (grid (createWorld seed_of))"
  by (simp add: createWorld_def grid_consistent_def list_all_iff generateTile_consistent)

lemma set_list_update_cases:
  "t \<in> set (xs[i := v]) \<Longrightarrow> (i < length xs \<and> t = v) \<or> t \<in> set xs"
  by (cases "i < length xs") (auto simp: list_update_beyond dest: set_update_subset_insert[THEN subsetD])

lemma setTileAt_square: "grid_square (grid w) \<Longrightarrow> grid_square (grid (setTileAt w pos t))"
  by (auto simp: setTileAt_def grid_square_def list_all_iff dest!: set_list_update_cases)

lemma setTileAt_consistent:
  "grid_consistent (grid w) \<Longrightarrow> tile_consistent t \<Longrightarrow> grid_consistent (grid (setTileAt w pos t))"
  by (auto simp: setTileAt_def grid_consistent_def list_all_iff dest!: set_list_update_cases)

lemma getTileAt_setTileAt:
  assumes "grid_square (grid w)" "isValidPosition pos"
  shows "getTileAt (setTileAt w pos t) pos' =
     (if isValidPosition pos' \<and> px pos' = px pos \<and> py pos' = py pos then Some t
      else getTileAt w pos')"
proof -
  have l: "length (grid w) = nat gridSize" "\<And>i. i < nat gridSize \<Longrightarrow> length (grid w ! i) = nat gridSize"
    using assms(1) by (auto simp: grid_square_def list_all_iff)
  have v: "nat (px pos) < nat gridSize" "nat (py pos) < nat gridSize" "0 \<le> px pos" "0 \<le> py pos"
    using valid_nat[OF assms(2)] by (simp_all add: gridSize_def)
  show ?thesis
  proof (cases "isValidPosition pos'")
    case False
    then show ?thesis by (simp add: getTileAt_def)
  next
    case True
    then have v': "nat (px pos') < nat gridSize" "nat (py pos') < nat gridSize" "0 \<le> px pos'" "0 \<le> py pos'"
      using valid_nat[of pos'] by (simp_all add: gridSize_def)
    have e: "nat (px pos') = nat (px pos) \<longleftrightarrow> px pos' = px pos" "nat (py pos') = nat (py pos) \<longleftrightarrow> py pos' = py pos"
      using v v' by auto
    show ?thesis using True l v v' e
      by (auto simp: getTileAt_def setTileAt_def nth_list_update)
  qed
qed

subsection \<open>The invariant of the world\<close>

lemma getTileAt_consistent:
  assumes "grid_square (grid w)" "grid_consistent (grid w)" "getTileAt w pos = Some t"
  shows "tile_consistent t"
proof -
  have v: "isValidPosition pos" using assms(3) by (simp add: getTileAt_def split: if_splits)
  have t: "t = grid w ! nat (py pos) ! nat (px pos)"
    using assms(3) by (simp add: getTileAt_def split: if_splits)
  have "nat (py pos) < length (grid w)"
    using assms(1) valid_nat[OF v] by (simp add: grid_square_def gridSize_def)
  then have r: "grid w ! nat (py pos) \<in> set (grid w)" by simp
  then have "length (grid w ! nat (py pos)) = nat gridSize"
    using assms(1) by (simp add: grid_square_def list_all_iff)
  then have "t \<in> set (grid w ! nat (py pos))"
    using valid_nat[OF v] t by (simp add: gridSize_def)
  with r assms(2) show ?thesis by (simp add: grid_consistent_def list_all_iff)
qed

lemma world_inv_agent_only:
  assumes "world_inv seed_of w" "grid w' = grid w"
    "position (agent w') = position (agent w)" "isActive (agent w') = isActive (agent w)"
  shows "world_inv seed_of w'"
proof -
  have "getTileAt w' = getTileAt w"
    using assms(2) by (auto simp: getTileAt_def fun_eq_iff)
  then show ?thesis using assms unfolding world_inv_def by simp
qed

lemma world_inv_setTileAt:
  assumes "world_inv seed_of w" "getTileAt w pos = Some t0" "terrain t = terrain t0"
    "tile_consistent t"
  shows "world_inv seed_of (setTileAt w pos t)"
proof -
  have v: "isValidPosition pos" using assms(2) by (simp add: getTileAt_def split: if_splits)
  have sq: "grid_square (grid w)" using assms(1) by (simp add: world_inv_def)
  have ag: "agent (setTileAt w pos t) = agent w" by (simp add: setTileAt_def)
  have g: "\<And>pos'. getTileAt (setTileAt w pos t) pos' =
     (if isValidPosition pos' \<and> px pos' = px pos \<and> py pos' = py pos then Some t
      else getTileAt w pos')"
    by (rule getTileAt_setTileAt[OF sq v])
  have same: "\<And>pos'. px pos' = px pos \<and> py pos' = py pos \<Longrightarrow> getTileAt w pos' = Some t0"
    using assms(2) by (auto simp: getTileAt_def isValidPosition_def split: if_splits)
  have 1: "grid_square (grid (setTileAt w pos t))" by (rule setTileAt_square[OF sq])
  have 2: "grid_consistent (grid (setTileAt w pos t))"
    using assms(1,4) by (simp add: setTileAt_consistent world_inv_def)
  have 3: "\<forall>pos'. isValidPosition pos' \<longrightarrow>
            (\<exists>t'. getTileAt (setTileAt w pos t) pos' = Some t'
                 \<and> terrain t' = terrain (generateTile seed_of (px pos') (py pos')))"
  proof (intro allI impI)
    fix pos' assume v': "isValidPosition pos'"
    then obtain t1 where t1: "getTileAt w pos' = Some t1"
        "terrain t1 = terrain (generateTile seed_of (px pos') (py pos'))"
      using assms(1) by (auto simp: world_inv_def)
    show "\<exists>t'. getTileAt (setTileAt w pos t) pos' = Some t'
                 \<and> terrain t' = terrain (generateTile seed_of (px pos') (py pos'))"
      using t1 same[of pos'] assms(3) by (auto simp: g)
  qed
  have 4: "isValidPosition (position (agent w))" using assms(1) by (simp add: world_inv_def)
  obtain ta where ta: "getTileAt w (position (agent w)) = Some ta" "terrain ta \<noteq> Water"
    using assms(1) by (auto simp: world_inv_def)
  have 5: "\<exists>t'. getTileAt (setTileAt w pos t) (position (agent w)) = Some t' \<and> terrain t' \<noteq> Water"
    using ta same[of "position (agent w)"] assms(3) by (auto simp: g)
  have 6: "\<not> isActive (agent w)" using assms(1) by (simp add: world_inv_def)
  show ?thesis
    unfolding world_inv_def ag using 1 2 3 4 5 6 by blast
qed

lemma world_inv_fresh: "world_inv seed_of (createWorld seed_of)"
proof -
  have v: "isValidPosition \<lparr>px = 10, py = 10\<rparr>" by (simp add: isValidPosition_def gridSize_def)
  have p: "position (agent (createWorld seed_of)) = \<lparr>px = 10, py = 10\<rparr>"
    "\<not> isActive (agent (createWorld seed_of))" by (simp_all add: createWorld_def)
  have "terrain (generateTile seed_of 10 10) \<noteq> Water"
    by (rule generateTile_interior_dry) (simp_all add: gridSize_def)
  then show ?thesis
    using createWorld_tile[OF v, of seed_of] v
    by (simp add: world_inv_def createWorld_square createWorld_consistent createWorld_tile p)
qed

lemma setAgentPosition_inv:
  "world_inv seed_of w \<Longrightarrow> world_inv seed_of (snd (setAgentPosition w pos))"
  by (auto simp: setAgentPosition_def world_inv_def getTileAt_def split: option.splits)

lemma addToInventory_frame:
  "grid (addToInventory w item amount) = grid w"
  "position (agent (addToInventory w item amount)) = position (agent w)"
  "isActive (agent (addToInventory w item amount)) = isActive (agent w)"
  by (simp_all add: addToInventory_def Let_def split: option.splits)

lemma removeFromInventory_frame:
  "grid (snd (removeFromInventory w item amount)) = grid w"
  "position (agent (snd (removeFromInventory w item amount))) = position (agent w)"
  "isActive (agent (snd (removeFromInventory w item amount))) = isActive (agent w)"
  by (simp_all add: removeFromInventory_def Let_def split: option.splits)

lemma consume_frame:
  "grid (consume recipe w) = grid w"
  "position (agent (consume recipe w)) = position (agent w)"
  "isActive (agent (consume recipe w)) = isActive (agent w)"
  unfolding consume_def
  by (induction recipe arbitrary: w; simp add: removeFromInventory_frame split: prod.splits)+

lemma removeResourceFromTile_inv:
  assumes "world_inv seed_of w"
  shows "world_inv seed_of (snd (removeResourceFromTile w pos amount))"
proof (cases "getTileAt w pos")
  case None
  then show ?thesis using assms by (simp add: removeResourceFromTile_def)
next
  case (Some tile)
  show ?thesis
  proof (cases "resourceAmount tile")
    case None
    then show ?thesis using assms Some by (simp add: removeResourceFromTile_def)
  next
    case Some2: (Some q)
    show ?thesis
    proof (cases "resource tile \<noteq> None \<and> q \<noteq> 0 \<and> q \<ge> amount")
      case False
      then show ?thesis using assms Some Some2 by (auto simp: removeResourceFromTile_def)
    next
      case True
      then show ?thesis
        using Some Some2
        by (auto simp: removeResourceFromTile_def Let_def tile_consistent_def
              intro!: world_inv_setTileAt[OF assms Some])
    qed
  qed
qed

lemma placeStructure_inv:
  assumes "world_inv seed_of w"
  shows "world_inv seed_of (snd (placeStructure w pos structure_k))"
proof (cases "getTileAt w pos")
  case None
  then show ?thesis using assms by (simp add: placeStructure_def)
next
  case (Some tile)
  have "tile_consistent tile"
    using assms Some getTileAt_consistent[of w pos tile] by (simp add: world_inv_def)
  then have "tile_consistent (tile\<lparr>structure_t := Some structure_k\<rparr>)"
    by (simp add: tile_consistent_def)
  then show ?thesis
    using Some assms
    by (auto simp: placeStructure_def intro!: world_inv_setTileAt[OF assms Some])
qed

subsection \<open>Catalog operations keep the invariant\<close>

lemma addToInventory_inv:
  "world_inv seed_of w \<Longrightarrow> world_inv seed_of (addToInventory w item amount)"
  by (rule world_inv_agent_only) (simp_all add: addToInventory_frame)

lemma removeFromInventory_inv:
  "world_inv seed_of w \<Longrightarrow> world_inv seed_of (snd (removeFromInventory w item amount))"
  by (rule world_inv_agent_only) (simp_all add: removeFromInventory_frame)

lemma consume_inv: "world_inv seed_of w \<Longrightarrow> world_inv seed_of (consume recipe w)"
  by (rule world_inv_agent_only) (simp_all add: consume_frame)

lemma Position_update_eq:
  "p\<lparr>py := v\<rparr> = \<lparr>px = px p, py = v\<rparr>" "p\<lparr>px := u\<rparr> = \<lparr>px = u, py = py p\<rparr>"
  by simp_all

lemma move_valid:
  assumes "direction \<in> set validDirections"
  shows "move w direction =
     (let newPos = adjacent (position (agent w)) direction
      in case setAgentPosition w newPos of
              (True, w') \<Rightarrow>
                (\<lparr>success = True,
                  message = ''Moved '' @ direction @ '' to position ('' @ show_int (px newPos)
                            @ '', '' @ show_int (py newPos) @ '')'',
                  data = Some (PositionData newPos)\<rparr>, w')
            | (False, w') \<Rightarrow>
                (\<lparr>success = False,
                  message = ''Cannot move '' @ direction @ '' - obstacle or boundary in the way'',
                  data = None\<rparr>, w'))"
proof -
  have "direction = ''north'' \<or> direction = ''south'' \<or> direction = ''east''
        \<or> direction = ''west''"
    using assms by (simp add: validDirections_def)
  then show ?thesis
    by (elim disjE) (simp_all add: move_def adjacent_def validDirections_def Let_def
          Position_update_eq split: prod.splits bool.splits)
qed

lemma move_invalid:
  "direction \<notin> set validDirections \<Longrightarrow>
   move w direction =
     (\<lparr>success = False,
       message = ''Invalid direction: '' @ direction
                 @ ''. Must be one of: north, south, east, west'',
       data = None\<rparr>, w)"
  by (simp add: move_def validDirections_def)

lemma move_snd:
  "snd (move w direction) =
     (if direction \<in> set validDirections
      then snd (setAgentPosition w (adjacent (position (agent w)) direction)) else w)"
  by (simp add: move_valid move_invalid Let_def split: prod.splits bool.splits)

lemma move_inv: "world_inv seed_of w \<Longrightarrow> world_inv seed_of (snd (move w direction))"
  by (simp add: move_snd setAgentPosition_inv)

lemma look_snd: "snd (look w) = w"
  by (simp add: look_def Let_def)

lemma getInventory_snd: "snd (getInventory w) = w"
  by (simp add: getInventory_def Let_def)

lemma gather_snd:
  "snd (gather w resource_k) = w \<or>
   (\<exists>n. snd (gather w resource_k) =
      addToInventory (snd (removeResourceFromTile w (position (agent w)) n)) resource_k n)"
  by (auto simp: gather_def Let_def split: option.splits)

lemma gather_inv: "world_inv seed_of w \<Longrightarrow> world_inv seed_of (snd (gather w resource_k))"
  using gather_snd[of w resource_k]
  by (auto simp: addToInventory_inv removeResourceFromTile_inv)

lemma craft_snd:
  "snd (craft w item) = w \<or>
   (\<exists>recipe. snd (craft w item) = addToInventory (consume recipe w) item 1)"
  by (auto simp: craft_def Let_def split: option.splits)

lemma craft_inv: "world_inv seed_of w \<Longrightarrow> world_inv seed_of (snd (craft w item))"
  using craft_snd[of w item] by (auto simp: addToInventory_inv consume_inv)

lemma placeStructure_False: "placeStructure w pos k = (False, w') \<Longrightarrow> w' = w"
  by (auto simp: placeStructure_def split: option.splits if_splits)

lemma build_snd:
  "snd (build w structure_k) = w \<or>
   (\<exists>requirements. snd (build w structure_k) =
      consume requirements (snd (placeStructure w (position (agent w)) structure_k)))"
  by (auto simp: build_def Let_def split: option.splits prod.splits bool.splits
        dest: placeStructure_False)

lemma build_inv: "world_inv seed_of w \<Longrightarrow> world_inv seed_of (snd (build w structure_k))"
  using build_snd[of w structure_k] by (auto simp: placeStructure_inv consume_inv)

lemma world_step_inv:
  "world_step seed_of w w' \<Longrightarrow> world_inv seed_of w \<Longrightarrow> world_inv seed_of w'"
  by (induction rule: world_step.induct)
     (simp_all add: setAgentPosition_inv addToInventory_inv removeFromInventory_inv
        removeResourceFromTile_inv placeStructure_inv reset_def world_inv_fresh move_inv
        look_snd gather_inv craft_inv build_inv getInventory_snd)

lemma reachable_inv: "reachable seed_of w \<Longrightarrow> world_inv seed_of w"
  by (induction rule: reachable.induct) (simp_all add: world_inv_fresh world_step_inv)

subsection \<open>What gathering does\<close>

lemma removeResourceFromTile_ok:
  assumes "getTileAt w pos = Some t" "resource t \<noteq> None" "resourceAmount t = Some q"
    "q \<noteq> 0" "amount \<le> q"
  shows "removeResourceFromTile w pos amount =
     (True, setTileAt w pos (if q - amount = 0 then t\<lparr>resource := None, resourceAmount := None\<rparr>
                             else t\<lparr>resourceAmount := Some (q - amount)\<rparr>))"
  using assms by (simp add: removeResourceFromTile_def Let_def)

lemma addToInventory_map_of:
  "map_of (inventory (agent (addToInventory w item amount))) =
     (map_of (inventory (agent w)))(item \<mapsto> count_of (inventory (agent w)) item + amount)"
  by (auto simp: addToInventory_def Let_def count_of_def truthy_num_def update_conv'
        split: option.splits)

lemma count_of_addToInventory:
  "count_of (inventory (agent (addToInventory w item amount))) k =
     (if k = item then count_of (inventory (agent w)) item + amount
      else count_of (inventory (agent w)) k)"
  unfolding count_of_def[of "inventory (agent (addToInventory w item amount))"]
    addToInventory_map_of
  by (simp add: count_of_def)

lemma gather_success:
  assumes "getTileAt w (position (agent w)) = Some t"
    "map_option ResourceType_name (resource t) = Some r"
    "resourceAmount t = Some q" "0 < q"
  shows "gather w r =
     (\<lparr>success = True, message = ''Gathered '' @ show_int (min 5 q) @ '' '' @ r,
       data = Some (GatherData r (min 5 q))\<rparr>,
      addToInventory
        (setTileAt w (position (agent w))
           (if q \<le> 5 then t\<lparr>resource := None, resourceAmount := None\<rparr>
            else t\<lparr>resourceAmount := Some (q - 5)\<rparr>)) r (min 5 q))"
proof -
  have r: "resource t \<noteq> None" using assms(2) by auto
  have q: "q \<noteq> 0" "min 5 q \<le> q" using assms(4) by simp_all
  have "removeResourceFromTile w (position (agent w)) (min 5 q) =
     (True, setTileAt w (position (agent w))
        (if q \<le> 5 then t\<lparr>resource := None, resourceAmount := None\<rparr>
         else t\<lparr>resourceAmount := Some (q - 5)\<rparr>))"
    unfolding removeResourceFromTile_ok[OF assms(1) r assms(3) q]
    by (auto simp: min_def)
  then show ?thesis
    using assms by (simp add: gather_def Let_def)
qed

lemma gather_failure:
  assumes "\<not> (\<exists>t q. getTileAt w (position (agent w)) = Some t
              \<and> map_option ResourceType_name (resource t) = Some r
              \<and> resourceAmount t = Some q \<and> 0 < q)"
  shows "\<not> success (fst (gather w r)) \<and> snd (gather w r) = w"
  using assms by (auto simp: gather_def Let_def split: option.splits)

subsection \<open>Tiles: resource kind and quantity\<close>

text \<open>
  C1. In every reachable world (the freshly generated one and any world obtained from it by
  mutation primitives and catalog operations, with any arguments) every tile has a resource
  kind exactly if it has a quantity greater than 0. In particular, depleting a tile by its
  whole remaining quantity succeeds and clears the resource kind and the quantity together.
\<close>

theorem C1_resource_depletion_invariant:
  assumes "reachable seed_of w"
  shows "(\<forall>row\<in>set (grid w). \<forall>t\<in>set row.
            (resource t \<noteq> None) = (\<exists>q. resourceAmount t = Some q \<and> 0 < q))
       \<and> (\<forall>pos t q. getTileAt w pos = Some t \<and> resource t \<noteq> None \<and> resourceAmount t = Some q \<longrightarrow>
            fst (removeResourceFromTile w pos q)
            \<and> (\<exists>t'. getTileAt (snd (removeResourceFromTile w pos q)) pos = Some t'
                   \<and> resource t' = None \<and> resourceAmount t' = None))"
proof -
  have inv: "world_inv seed_of w" by (rule reachable_inv[OF assms])
  then have sq: "grid_square (grid w)" and gc: "grid_consistent (grid w)"
    by (simp_all add: world_inv_def)
  have 1: "\<forall>row\<in>set (grid w). \<forall>t\<in>set row.
            (resource t \<noteq> None) = (\<exists>q. resourceAmount t = Some q \<and> 0 < q)"
    using gc by (auto simp: grid_consistent_def list_all_iff tile_consistent_def
                  split: option.splits)
  have 2: "fst (removeResourceFromTile w pos q)
            \<and> (\<exists>t'. getTileAt (snd (removeResourceFromTile w pos q)) pos = Some t'
                   \<and> resource t' = None \<and> resourceAmount t' = None)"
    if h: "getTileAt w pos = Some t" "resource t \<noteq> None" "resourceAmount t = Some q"
    for pos t q
  proof -
    have "tile_consistent t" by (rule getTileAt_consistent[OF sq gc h(1)])
    then have q: "q \<noteq> 0" using h(2,3) by (simp add: tile_consistent_def)
    have v: "isValidPosition pos" using h(1) by (simp add: getTileAt_def split: if_splits)
    show ?thesis
      unfolding removeResourceFromTile_ok[OF h(1,2,3) q order_refl]
      using v by (simp add: getTileAt_setTileAt[OF sq v])
  qed
  show ?thesis using 1 2 by blast
qed

lemma createWorld_agent:
  "agent (createWorld seed_of) =
     \<lparr>position = \<lparr>px = 10, py = 10\<rparr>, inventory = [], isActive = False\<rparr>"
  by (simp add: createWorld_def)

lemma tile_3_20:
  "2 \<le> x \<Longrightarrow> x < 18 \<Longrightarrow> 2 \<le> y \<Longrightarrow> y < 18 \<Longrightarrow>
   generateTile forest_seed x y =
     \<lparr>terrain = Forest, resource = Some Wood, resourceAmount = Some 8, structure_t = None\<rparr>"
  by (simp add: generateTile_def gridSize_def forest_seed_def)

theorem C1_resource_depletion_invariant_witness:
  "reachable forest_seed (createWorld forest_seed)
   \<and> getTileAt (createWorld forest_seed) \<lparr>px = 10, py = 10\<rparr> =
       Some \<lparr>terrain = Forest, resource = Some Wood, resourceAmount = Some 8, structure_t = None\<rparr>
   \<and> fst (removeResourceFromTile (createWorld forest_seed) \<lparr>px = 10, py = 10\<rparr> 8)
   \<and> (\<exists>t'. getTileAt (snd (removeResourceFromTile (createWorld forest_seed)
                 \<lparr>px = 10, py = 10\<rparr> 8)) \<lparr>px = 10, py = 10\<rparr> = Some t'
          \<and> resource t' = None \<and> resourceAmount t' = None)"
proof -
  have v: "isValidPosition \<lparr>px = 10, py = 10\<rparr>" by (simp add: isValidPosition_def gridSize_def)
  have t: "getTileAt (createWorld forest_seed) \<lparr>px = 10, py = 10\<rparr> =
       Some \<lparr>terrain = Forest, resource = Some Wood, resourceAmount = Some 8, structure_t = None\<rparr>"
    by (simp add: createWorld_tile[OF v] tile_3_20)
  show ?thesis
    using C1_resource_depletion_invariant[OF reachable.fresh, of forest_seed,
        THEN conjunct2, rule_format, of "\<lparr>px = 10, py = 10\<rparr>" _ 8] t
      reachable.fresh[of forest_seed]
    by simp
qed

subsection \<open>The position of the agent\<close>

text \<open>
  C5. The fresh world has the agent at (10, 10), and in every reachable world both
  coordinates of the agent's position lie in \<open>[0, gridSize)\<close> and the tile there is not
  water.
\<close>

theorem C5_agent_position_valid:
  "position (agent (createWorld seed_of)) = \<lparr>px = 10, py = 10\<rparr>
   \<and> (reachable seed_of w \<longrightarrow>
        0 \<le> px (position (agent w)) \<and> px (position (agent w)) < gridSize
      \<and> 0 \<le> py (position (agent w)) \<and> py (position (agent w)) < gridSize
      \<and> (\<exists>t. getTileAt w (position (agent w)) = Some t \<and> terrain t \<noteq> Water))"
  using reachable_inv[of seed_of w]
  by (auto simp: createWorld_def world_inv_def isValidPosition_def)

theorem C5_agent_position_valid_witness:
  "reachable forest_seed (snd (move (createWorld forest_seed) ''north''))
   \<and> position (agent (snd (move (createWorld forest_seed) ''north''))) = \<lparr>px = 10, py = 9\<rparr>
   \<and> (\<exists>t. getTileAt (snd (move (createWorld forest_seed) ''north'')) \<lparr>px = 10, py = 9\<rparr> = Some t
          \<and> terrain t \<noteq> Water)"
proof -
  let ?w = "snd (move (createWorld forest_seed) ''north'')"
  have r: "reachable forest_seed ?w"
    by (rule reachable.step[OF reachable.fresh step_move])
  have v: "isValidPosition \<lparr>px = 10, py = 9\<rparr>" by (simp add: isValidPosition_def gridSize_def)
  have a: "adjacent (position (agent (createWorld forest_seed))) ''north'' = \<lparr>px = 10, py = 9\<rparr>"
    by (simp add: createWorld_agent adjacent_def)
  have s: "snd (setAgentPosition (createWorld forest_seed) \<lparr>px = 10, py = 9\<rparr>) =
      (createWorld forest_seed)\<lparr>agent := (agent (createWorld forest_seed))
        \<lparr>position := \<lparr>px = 10, py = 9\<rparr>\<rparr>\<rparr>"
    by (simp add: setAgentPosition_def v createWorld_tile[OF v] tile_3_20)
  have p: "position (agent ?w) = \<lparr>px = 10, py = 9\<rparr>"
    by (simp add: move_snd validDirections_def a s)
  show ?thesis
    using C5_agent_position_valid[of forest_seed ?w] r p by simp
qed

subsection \<open>The gather operation\<close>

text \<open>
  C2. In every reachable world, \<open>gather r\<close> succeeds exactly if the tile under the agent
  carries a resource named \<open>r\<close> with a positive quantity \<open>q\<close>. On success it reports
  \<open>min 5 q\<close>, leaves \<open>q - min 5 q\<close> on the tile (clearing the tile when that is 0), adds
  \<open>min 5 q\<close> to the inventory count of \<open>r\<close> and changes no other tile, no other inventory
  entry and not the position. On failure the world is unchanged. On a fresh world whose
  start tile holds 8 wood, \<open>gather ''wood''\<close> reports 5, leaves 3 and the inventory is
  wood 5.
\<close>

theorem C2_gather:
  assumes "reachable seed_of w"
  shows "(success (fst (gather w r)) \<longleftrightarrow>
            (\<exists>t q. getTileAt w (position (agent w)) = Some t
                 \<and> map_option ResourceType_name (resource t) = Some r
                 \<and> resourceAmount t = Some q \<and> 0 < q))
       \<and> (\<forall>t q. getTileAt w (position (agent w)) = Some t
                 \<and> map_option ResourceType_name (resource t) = Some r
                 \<and> resourceAmount t = Some q \<and> 0 < q \<longrightarrow>
              data (fst (gather w r)) = Some (GatherData r (min 5 q))
            \<and> getTileAt (snd (gather w r)) (position (agent w)) =
                Some (if q - min 5 q = 0 then t\<lparr>resource := None, resourceAmount := None\<rparr>
                      else t\<lparr>resourceAmount := Some (q - min 5 q)\<rparr>)
            \<and> count_of (inventory (agent (snd (gather w r)))) r =
                count_of (inventory (agent w)) r + min 5 q
            \<and> (\<forall>k. k \<noteq> r \<longrightarrow> map_of (inventory (agent (snd (gather w r)))) k =
                                 map_of (inventory (agent w)) k)
            \<and> (\<forall>pos'. pos' \<noteq> position (agent w) \<longrightarrow>
                   getTileAt (snd (gather w r)) pos' = getTileAt w pos')
            \<and> position (agent (snd (gather w r))) = position (agent w))
       \<and> (\<not> success (fst (gather w r)) \<longrightarrow> snd (gather w r) = w)
       \<and> (\<forall>t. getTileAt (createWorld seed_of) \<lparr>px = 10, py = 10\<rparr> = Some t
               \<and> resource t = Some Wood \<and> resourceAmount t = Some 8 \<longrightarrow>
              data (fst (gather (createWorld seed_of) ''wood'')) = Some (GatherData ''wood'' 5)
            \<and> getTileAt (snd (gather (createWorld seed_of) ''wood'')) \<lparr>px = 10, py = 10\<rparr> =
                Some (t\<lparr>resourceAmount := Some 3\<rparr>)
            \<and> inventory (agent (snd (gather (createWorld seed_of) ''wood''))) = [(''wood'', 5)])"
proof -
  have succ: "success (fst (gather w' r'))
       \<and> data (fst (gather w' r')) = Some (GatherData r' (min 5 q))
       \<and> getTileAt (snd (gather w' r')) (position (agent w')) =
                Some (if q - min 5 q = 0 then t\<lparr>resource := None, resourceAmount := None\<rparr>
                      else t\<lparr>resourceAmount := Some (q - min 5 q)\<rparr>)
       \<and> count_of (inventory (agent (snd (gather w' r')))) r' =
                count_of (inventory (agent w')) r' + min 5 q
       \<and> (\<forall>k. k \<noteq> r' \<longrightarrow> map_of (inventory (agent (snd (gather w' r')))) k =
                                 map_of (inventory (agent w')) k)
       \<and> (\<forall>pos'. pos' \<noteq> position (agent w') \<longrightarrow>
                   getTileAt (snd (gather w' r')) pos' = getTileAt w' pos')
       \<and> position (agent (snd (gather w' r'))) = position (agent w')
       \<and> inventory (agent (snd (gather w' r'))) =
           inventory (agent (addToInventory w' r' (min 5 q)))"
    if h: "getTileAt w' (position (agent w')) = Some t"
          "map_option ResourceType_name (resource t) = Some r'"
          "resourceAmount t = Some q" "0 < q"
      and sq: "grid_square (grid w')"
    for w' r' t q
  proof -
    let ?pos = "position (agent w')"
    let ?t' = "if q \<le> 5 then t\<lparr>resource := None, resourceAmount := None\<rparr>
               else t\<lparr>resourceAmount := Some (q - 5)\<rparr>"
    have v: "isValidPosition ?pos" using h(1) by (simp add: getTileAt_def split: if_splits)
    have g: "gather w' r' =
       (\<lparr>success = True, message = ''Gathered '' @ show_int (min 5 q) @ '' '' @ r',
         data = Some (GatherData r' (min 5 q))\<rparr>,
        addToInventory (setTileAt w' ?pos ?t') r' (min 5 q))"
      by (rule gather_success[OF h])
    have gt: "getTileAt (addToInventory (setTileAt w' ?pos ?t') r' (min 5 q)) =
              getTileAt (setTileAt w' ?pos ?t')"
      by (auto simp: getTileAt_def fun_eq_iff addToInventory_frame)
    have ne: "\<And>pos'. pos' \<noteq> ?pos \<Longrightarrow> \<not> (px pos' = px ?pos \<and> py pos' = py ?pos)"
      by auto
    have ag: "agent (setTileAt w' ?pos ?t') = agent w'" by (simp add: setTileAt_def)
    have inv: "inventory (agent (addToInventory (setTileAt w' ?pos ?t') r' (min 5 q))) =
               inventory (agent (addToInventory w' r' (min 5 q)))"
      by (simp add: addToInventory_def ag Let_def)
    have tile: "(if q - min 5 q = 0 then t\<lparr>resource := None, resourceAmount := None\<rparr>
                 else t\<lparr>resourceAmount := Some (q - min 5 q)\<rparr>) = ?t'"
      by (auto simp: min_def)
    show ?thesis
      unfolding g tile
      using v ne
      by (simp add: gt getTileAt_setTileAt[OF sq v] addToInventory_frame ag inv
            count_of_addToInventory addToInventory_map_of)
  qed
  have sq: "grid_square (grid w)"
    using reachable_inv[OF assms] by (simp add: world_inv_def)
  have 1: "success (fst (gather w r)) \<longleftrightarrow>
            (\<exists>t q. getTileAt w (position (agent w)) = Some t
                 \<and> map_option ResourceType_name (resource t) = Some r
                 \<and> resourceAmount t = Some q \<and> 0 < q)"
    using succ[OF _ _ _ _ sq, of _ r] gather_failure[of w r] by blast
  have 3: "\<not> success (fst (gather w r)) \<longrightarrow> snd (gather w r) = w"
    using 1 gather_failure[of w r] by blast
  have 4: "data (fst (gather (createWorld seed_of) ''wood'')) = Some (GatherData ''wood'' 5)
            \<and> getTileAt (snd (gather (createWorld seed_of) ''wood'')) \<lparr>px = 10, py = 10\<rparr> =
                Some (t\<lparr>resourceAmount := Some 3\<rparr>)
            \<and> inventory (agent (snd (gather (createWorld seed_of) ''wood''))) = [(''wood'', 5)]"
    if h: "getTileAt (createWorld seed_of) \<lparr>px = 10, py = 10\<rparr> = Some t"
      "resource t = Some Wood" "resourceAmount t = Some 8" for t
  proof -
    have p: "position (agent (createWorld seed_of)) = \<lparr>px = 10, py = 10\<rparr>"
      by (simp add: createWorld_agent)
    have i: "inventory (agent (addToInventory (createWorld seed_of) ''wood'' 5)) = [(''wood'', 5)]"
      by (simp add: addToInventory_def createWorld_agent Let_def truthy_num_def)
    show ?thesis
      using succ[of "createWorld seed_of" t "''wood''" 8, OF _ _ h(3) _ createWorld_square]
        h(1,2) i
      by (simp add: p)
  qed
  show ?thesis using 1 3 4 succ[OF _ _ _ _ sq, of _ r] by blast
qed

theorem C2_gather_witness:
  "reachable forest_seed (createWorld forest_seed)
   \<and> getTileAt (createWorld forest_seed) \<lparr>px = 10, py = 10\<rparr> =
       Some \<lparr>terrain = Forest, resource = Some Wood, resourceAmount = Some 8, structure_t = None\<rparr>
   \<and> success (fst (gather (createWorld forest_seed) ''wood''))
   \<and> data (fst (gather (createWorld forest_seed) ''wood'')) = Some (GatherData ''wood'' 5)
   \<and> getTileAt (snd (gather (createWorld forest_seed) ''wood'')) \<lparr>px = 10, py = 10\<rparr> =
       Some \<lparr>terrain = Forest, resource = Some Wood, resourceAmount = Some 3, structure_t = None\<rparr>
   \<and> inventory (agent (snd (gather (createWorld forest_seed) ''wood''))) = [(''wood'', 5)]
   \<and> \<not> success (fst (gather (createWorld forest_seed) ''stone''))
   \<and> snd (gather (createWorld forest_seed) ''stone'') = createWorld forest_seed"
proof -
  let ?s = forest_seed
  let ?t = "\<lparr>terrain = Forest, resource = Some Wood, resourceAmount = Some 8, structure_t = None\<rparr>"
  have v: "isValidPosition \<lparr>px = 10, py = 10\<rparr>" by (simp add: isValidPosition_def gridSize_def)
  have t: "getTileAt (createWorld ?s) \<lparr>px = 10, py = 10\<rparr> = Some ?t"
    by (simp add: createWorld_tile[OF v] tile_3_20)
  have p: "position (agent (createWorld ?s)) = \<lparr>px = 10, py = 10\<rparr>"
    by (simp add: createWorld_agent)
  note c = C2_gather[OF reachable.fresh, of ?s]
  have a: "success (fst (gather (createWorld ?s) ''wood''))"
    using c[of "''wood''", THEN conjunct1] t by (simp add: p)
  have b: "data (fst (gather (createWorld ?s) ''wood'')) = Some (GatherData ''wood'' 5)
     \<and> getTileAt (snd (gather (createWorld ?s) ''wood'')) \<lparr>px = 10, py = 10\<rparr> =
         Some (?t\<lparr>resourceAmount := Some 3\<rparr>)
     \<and> inventory (agent (snd (gather (createWorld ?s) ''wood''))) = [(''wood'', 5)]"
    using c[of "''wood''", THEN conjunct2, THEN conjunct2, THEN conjunct2, rule_format, of ?t] t
    by simp
  have n: "\<not> success (fst (gather (createWorld ?s) ''stone''))"
    using c[of "''stone''", THEN conjunct1] t by (simp add: p)
  then have u: "snd (gather (createWorld ?s) ''stone'') = createWorld ?s"
    using c[of "''stone''", THEN conjunct2, THEN conjunct2, THEN conjunct1] by blast
  show ?thesis using a b n u t reachable.fresh[of ?s] by simp
qed

subsection \<open>Crafting and building\<close>










subsection \<open>Moving\<close>

text \<open>
  C4. \<open>move\<close> with a string that is none of north, south, east, west fails with a message
  that lists the four valid values and leaves the world as it was. With a valid direction
  whose adjacent coordinate is out of bounds or a water tile it fails with the blocked
  message and leaves the world as it was. With a valid direction whose adjacent coordinate
  is an in-bounds tile that is not water it succeeds and only the position changes, to that
  adjacent coordinate.
\<close>

theorem C4_move:
  "(direction \<notin> {''north'', ''south'', ''east'', ''west''} \<longrightarrow>
      move w direction =
        (\<lparr>success = False,
          message = ''Invalid direction: '' @ direction
                    @ ''. Must be one of: north, south, east, west'',
          data = None\<rparr>, w))
   \<and> (direction \<in> {''north'', ''south'', ''east'', ''west''}
        \<and> (\<not> isValidPosition (adjacent (position (agent w)) direction)
           \<or> (\<exists>t. getTileAt w (adjacent (position (agent w)) direction) = Some t
                  \<and> terrain t = Water)) \<longrightarrow>
      move w direction =
        (\<lparr>success = False,
          message = ''Cannot move '' @ direction @ '' - obstacle or boundary in the way'',
          data = None\<rparr>, w))
   \<and> (direction \<in> {''north'', ''south'', ''east'', ''west''}
        \<and> isValidPosition (adjacent (position (agent w)) direction)
        \<and> (\<exists>t. getTileAt w (adjacent (position (agent w)) direction) = Some t
               \<and> terrain t \<noteq> Water) \<longrightarrow>
      success (fst (move w direction))
      \<and> data (fst (move w direction))
          = Some (PositionData (adjacent (position (agent w)) direction))
      \<and> snd (move w direction)
          = w\<lparr>agent := (agent w)\<lparr>position := adjacent (position (agent w)) direction\<rparr>\<rparr>)
   \<and> adjacent p ''north'' = \<lparr>px = px p, py = py p - 1\<rparr>
   \<and> adjacent p ''south'' = \<lparr>px = px p, py = py p + 1\<rparr>
   \<and> adjacent p ''east'' = \<lparr>px = px p + 1, py = py p\<rparr>
   \<and> adjacent p ''west'' = \<lparr>px = px p - 1, py = py p\<rparr>"
proof -
  have vd: "set validDirections = {''north'', ''south'', ''east'', ''west''}"
    by (auto simp: validDirections_def)
  let ?n = "adjacent (position (agent w)) direction"
  have 1: "direction \<notin> {''north'', ''south'', ''east'', ''west''} \<Longrightarrow> move w direction =
        (\<lparr>success = False,
          message = ''Invalid direction: '' @ direction
                    @ ''. Must be one of: north, south, east, west'',
          data = None\<rparr>, w)"
    unfolding vd[symmetric] by (rule move_invalid)
  have 2: "move w direction =
        (\<lparr>success = False,
          message = ''Cannot move '' @ direction @ '' - obstacle or boundary in the way'',
          data = None\<rparr>, w)"
    if "direction \<in> {''north'', ''south'', ''east'', ''west''}"
       "\<not> isValidPosition ?n \<or> (\<exists>t. getTileAt w ?n = Some t \<and> terrain t = Water)"
  proof -
    have "setAgentPosition w ?n = (False, w)"
      using that(2) by (auto simp: setAgentPosition_def split: option.splits)
    moreover have "direction \<in> set validDirections" using that(1) by (simp only: vd)
    ultimately show ?thesis
      by (simp add: move_valid Let_def)
  qed
  have 3: "success (fst (move w direction))
      \<and> data (fst (move w direction)) = Some (PositionData ?n)
      \<and> snd (move w direction) = w\<lparr>agent := (agent w)\<lparr>position := ?n\<rparr>\<rparr>"
    if "direction \<in> {''north'', ''south'', ''east'', ''west''}"
       "isValidPosition ?n" "\<exists>t. getTileAt w ?n = Some t \<and> terrain t \<noteq> Water"
  proof -
    have "setAgentPosition w ?n = (True, w\<lparr>agent := (agent w)\<lparr>position := ?n\<rparr>\<rparr>)"
      using that(2,3) by (auto simp: setAgentPosition_def split: option.splits)
    moreover have "direction \<in> set validDirections" using that(1) by (simp only: vd)
    ultimately show ?thesis
      by (simp add: move_valid Let_def)
  qed
  have 4: "adjacent p ''north'' = \<lparr>px = px p, py = py p - 1\<rparr>
   \<and> adjacent p ''south'' = \<lparr>px = px p, py = py p + 1\<rparr>
   \<and> adjacent p ''east'' = \<lparr>px = px p + 1, py = py p\<rparr>
   \<and> adjacent p ''west'' = \<lparr>px = px p - 1, py = py p\<rparr>"
    by (simp add: adjacent_def)
  show ?thesis using 1 2 3 4 by blast
qed

theorem C4_move_witness:
  "move (createWorld forest_seed) ''up'' =
     (\<lparr>success = False,
       message = ''Invalid direction: up. Must be one of: north, south, east, west'',
       data = None\<rparr>, createWorld forest_seed)
   \<and> position (agent (snd (setAgentPosition (createWorld forest_seed) \<lparr>px = 10, py = 2\<rparr>)))
       = \<lparr>px = 10, py = 2\<rparr>
   \<and> map_option terrain
        (getTileAt (snd (setAgentPosition (createWorld forest_seed) \<lparr>px = 10, py = 2\<rparr>))
           \<lparr>px = 10, py = 1\<rparr>) = Some Water
   \<and> move (snd (setAgentPosition (createWorld forest_seed) \<lparr>px = 10, py = 2\<rparr>)) ''north'' =
     (\<lparr>success = False,
       message = ''Cannot move north - obstacle or boundary in the way'',
       data = None\<rparr>, snd (setAgentPosition (createWorld forest_seed) \<lparr>px = 10, py = 2\<rparr>))
   \<and> position (agent (snd (setAgentPosition (createWorld meadow_seed) \<lparr>px = 10, py = 0\<rparr>)))
       = \<lparr>px = 10, py = 0\<rparr>
   \<and> move (snd (setAgentPosition (createWorld meadow_seed) \<lparr>px = 10, py = 0\<rparr>)) ''north'' =
     (\<lparr>success = False,
       message = ''Cannot move north - obstacle or boundary in the way'',
       data = None\<rparr>, snd (setAgentPosition (createWorld meadow_seed) \<lparr>px = 10, py = 0\<rparr>))
   \<and> success (fst (move (createWorld forest_seed) ''north''))
   \<and> position (agent (snd (move (createWorld forest_seed) ''north''))) = \<lparr>px = 10, py = 9\<rparr>"
proof -
  let ?w0 = "createWorld forest_seed"
  let ?wb = "snd (setAgentPosition ?w0 \<lparr>px = 10, py = 2\<rparr>)"
  let ?wm = "snd (setAgentPosition (createWorld meadow_seed) \<lparr>px = 10, py = 0\<rparr>)"
  have v: "isValidPosition \<lparr>px = 10, py = 2\<rparr>" "isValidPosition \<lparr>px = 10, py = 1\<rparr>"
    "isValidPosition \<lparr>px = 10, py = 0\<rparr>" "isValidPosition \<lparr>px = 10, py = 9\<rparr>"
    "\<not> isValidPosition \<lparr>px = 10, py = - 1\<rparr>"
    by (simp_all add: isValidPosition_def gridSize_def)
  have a: "move ?w0 ''up'' =
     (\<lparr>success = False,
       message = ''Invalid direction: up. Must be one of: north, south, east, west'',
       data = None\<rparr>, ?w0)"
    using C4_move[of "''up''" ?w0, THEN conjunct1] by simp
  have wb: "?wb = ?w0\<lparr>agent := (agent ?w0)\<lparr>position := \<lparr>px = 10, py = 2\<rparr>\<rparr>\<rparr>"
    by (simp add: setAgentPosition_def v createWorld_tile[OF v(1)] tile_3_20)
  have pb: "position (agent ?wb) = \<lparr>px = 10, py = 2\<rparr>" by (simp add: wb)
  have "getTileAt ?wb = getTileAt ?w0" by (auto simp: wb getTileAt_def fun_eq_iff)
  then have tb: "getTileAt ?wb \<lparr>px = 10, py = 1\<rparr> =
      Some \<lparr>terrain = Water, resource = None, resourceAmount = None, structure_t = None\<rparr>"
    by (simp add: createWorld_tile[OF v(2)] generateTile_def forest_seed_def gridSize_def)
  have b: "move ?wb ''north'' =
     (\<lparr>success = False,
       message = ''Cannot move north - obstacle or boundary in the way'',
       data = None\<rparr>, ?wb)"
    using C4_move[of "''north''" ?wb, THEN conjunct2, THEN conjunct1] tb
    by (simp add: pb adjacent_def)
  have wm: "?wm = (createWorld meadow_seed)\<lparr>agent := (agent (createWorld meadow_seed))
                    \<lparr>position := \<lparr>px = 10, py = 0\<rparr>\<rparr>\<rparr>"
    by (simp add: setAgentPosition_def v createWorld_tile[OF v(3)] generateTile_def
          meadow_seed_def gridSize_def)
  have pm: "position (agent ?wm) = \<lparr>px = 10, py = 0\<rparr>" by (simp add: wm)
  have c: "move ?wm ''north'' =
     (\<lparr>success = False,
       message = ''Cannot move north - obstacle or boundary in the way'',
       data = None\<rparr>, ?wm)"
    using C4_move[of "''north''" ?wm, THEN conjunct2, THEN conjunct1] v(5)
    by (simp add: pm adjacent_def)
  have d: "success (fst (move ?w0 ''north''))
      \<and> snd (move ?w0 ''north'') = ?w0\<lparr>agent := (agent ?w0)\<lparr>position := \<lparr>px = 10, py = 9\<rparr>\<rparr>\<rparr>"
    using C4_move[of "''north''" ?w0, THEN conjunct2, THEN conjunct2, THEN conjunct1] v(4)
    by (simp add: createWorld_agent adjacent_def createWorld_tile[OF v(4)] tile_3_20)
  show ?thesis using a pb tb b pm c d by simp
qed

subsection \<open>Inventory entries\<close>









subsection \<open>The active flag and requested operations\<close>

lemma setAgentPosition_isActive:
  "isActive (agent (snd (setAgentPosition w pos))) = isActive (agent w)"
  by (simp add: setAgentPosition_def split: option.splits)

lemma setTileAt_agent: "agent (setTileAt w pos t) = agent w"
  by (simp add: setTileAt_def)

lemma removeResourceFromTile_agent: "agent (snd (removeResourceFromTile w pos amount)) = agent w"
  by (simp add: removeResourceFromTile_def setTileAt_agent Let_def split: option.splits)

lemma placeStructure_agent: "agent (snd (placeStructure w pos k)) = agent w"
  by (simp add: placeStructure_def setTileAt_agent split: option.splits)

lemma world_step_isActive:
  "world_step seed_of w w' \<Longrightarrow> isActive (agent w') \<Longrightarrow> isActive (agent w)"
proof (induction rule: world_step.induct)
  case (step_gather w resource_k)
  then show ?case
    using gather_snd[of w resource_k]
    by (auto simp: addToInventory_frame removeResourceFromTile_agent)
next
  case (step_craft w item)
  then show ?case
    using craft_snd[of w item] by (auto simp: addToInventory_frame consume_frame)
next
  case (step_build w structure_k)
  then show ?case
    using build_snd[of w structure_k] by (auto simp: consume_frame placeStructure_agent)
next
  case (step_move w direction)
  then show ?case
    by (cases "direction \<in> set validDirections")
       (simp_all add: move_snd setAgentPosition_isActive)
qed (simp_all add: setAgentPosition_isActive addToInventory_frame removeFromInventory_frame
       removeResourceFromTile_agent placeStructure_agent reset_def createWorld_agent
       look_snd getInventory_snd)

lemma executeTool_cases:
  "executeTool a name args =
     (if name = ''move'' then
        (fst (move (game a) (arg args ''direction'')),
         a\<lparr>game := snd (move (game a) (arg args ''direction''))\<rparr>)
      else if name = ''look'' then (fst (look (game a)), a)
      else if name = ''gather'' then
        (fst (gather (game a) (arg args ''resource'')),
         a\<lparr>game := snd (gather (game a) (arg args ''resource''))\<rparr>)
      else if name = ''craft'' then
        (fst (craft (game a) (arg args ''item'')),
         a\<lparr>game := snd (craft (game a) (arg args ''item''))\<rparr>)
      else if name = ''build'' then
        (fst (build (game a) (arg args ''structure'')),
         a\<lparr>game := snd (build (game a) (arg args ''structure''))\<rparr>)
      else if name = ''getInventory'' then (fst (getInventory (game a)), a)
      else (\<lparr>success = False, message = ''Unknown tool: '' @ name, data = None\<rparr>, a))"
  unfolding executeTool_def
  by (simp only: case_prod_beta Let_def look_snd getInventory_snd) simp

lemma executeTool_game:
  "game (snd (executeTool a name args)) = game a
   \<or> world_step seed_of (game a) (game (snd (executeTool a name args)))"
  unfolding executeTool_cases
  by (simp add: world_step.intros)

lemma executeTool_rest:
  "isRunning (snd (executeTool a name args)) = isRunning a"
  "conversationHistory (snd (executeTool a name args)) = conversationHistory a"
  "apiKey (snd (executeTool a name args)) = apiKey a"
  "logged (snd (executeTool a name args)) = logged a"
  unfolding executeTool_cases by simp_all

lemma executeTool_unknown:
  "name \<notin> set toolNames \<Longrightarrow>
   executeTool a name args =
     (\<lparr>success = False, message = ''Unknown tool: '' @ name, data = None\<rparr>, a)"
  unfolding executeTool_cases by (simp add: toolNames_def)

subsection \<open>What the loop preserves\<close>

lemma onLog_fields:
  "game (onLog a m ty) = game a" "isRunning (onLog a m ty) = isRunning a"
  "conversationHistory (onLog a m ty) = conversationHistory a" "apiKey (onLog a m ty) = apiKey a"
  "logged (onLog a m ty) = logged a @ [(m, ty)]"
  by (simp_all add: onLog_def)

lemma stop_fields:
  "game (stop a) = game a" "\<not> isRunning (stop a)"
  "conversationHistory (stop a) = conversationHistory a" "apiKey (stop a) = apiKey a"
  "logged (stop a) = logged a @ [(''Agent stopped'', Info)]"
  by (simp_all add: stop_def onLog_fields)

text \<open>A property of the world that every world step preserves is preserved by the loop.\<close>

lemma executeTool_preserves:
  assumes pres: "\<forall>w w'. world_step seed_of w w' \<longrightarrow> Q w \<longrightarrow> Q w'" and "Q (game a)"
  shows "Q (game (snd (executeTool a name args)))"
  using executeTool_game[of a name args seed_of] assms by auto

lemma executeCalls_preserves:
  assumes pres: "\<forall>w w'. world_step seed_of w w' \<longrightarrow> Q w \<longrightarrow> Q w'"
  shows "Q (game a) \<Longrightarrow> Q (game (fst (executeCalls env calls a rs)))"
proof (induction calls arbitrary: a rs)
  case Nil
  then show ?case by simp
next
  case (Cons call calls)
  have "Q (game (snd (executeTool a (call_name call) (call_args call))))"
    by (rule executeTool_preserves[where Q = Q and seed_of = seed_of, OF pres Cons.prems])
  then show ?case
    by (auto simp: Let_def onLog_fields split: prod.splits intro!: Cons.IH)
qed

lemma round_game:
  "\<exists>a2 calls. game a2 = game a
     \<and> (game (snd (round env n a)) = game a
        \<or> game (snd (round env n a)) = game (fst (executeCalls env calls a2 [])))"
proof -
  let ?a1 = "onLog a (''--- Iteration '' @ show_nat n @ '' ---'') Info"
  let ?a2 = "if stopDuringCall env n then stop ?a1 else ?a1"
  have g2: "game ?a2 = game a" by (simp add: onLog_fields stop_fields)
  show ?thesis
  proof (cases "reply env n (conversationHistory a)")
    case (Threw e)
    then show ?thesis
      using g2 by (auto simp: round_def Let_def onLog_fields stop_fields)
  next
    case (Returned r)
    show ?thesis
    proof (cases r)
      case None
      then show ?thesis
        using g2 Returned by (auto simp: round_def Let_def onLog_fields stop_fields)
    next
      case (Some response)
      show ?thesis
      proof (cases "extractFunctionCalls response = []")
        case True
        then show ?thesis
          using g2 Returned Some by (auto simp: round_def Let_def onLog_fields stop_fields)
      next
        case False
        have "game (snd (round env n a)) =
              game (fst (executeCalls env (extractFunctionCalls response) ?a2 []))"
          using Returned Some False
          by (simp add: round_def Let_def onLog_fields stop_fields split: prod.splits)
        then show ?thesis using g2 by blast
      qed
    qed
  qed
qed

lemma round_preserves:
  assumes pres: "\<forall>w w'. world_step seed_of w w' \<longrightarrow> Q w \<longrightarrow> Q w'" and q: "Q (game a)"
  shows "Q (game (snd (round env n a)))"
proof -
  obtain a2 calls where a2: "game a2 = game a"
    and c: "game (snd (round env n a)) = game a
        \<or> game (snd (round env n a)) = game (fst (executeCalls env calls a2 []))"
    using round_game[of a env n] by blast
  have "Q (game a2)" using q a2 by simp
  then have "Q (game (fst (executeCalls env calls a2 [])))"
    by (rule executeCalls_preserves[where Q = Q and seed_of = seed_of, OF pres])
  then show ?thesis using c q by auto
qed

lemma runLoop_while_preserves:
  assumes pres: "\<forall>w w'. world_step seed_of w w' \<longrightarrow> Q w \<longrightarrow> Q w'"
  shows "Q (game a) \<Longrightarrow> Q (game (snd (runLoop_while env i a)))"
proof (induction env i a rule: runLoop_while.induct)
  case (1 env iteration a)
  show ?case
  proof (cases "isRunning a \<and> iteration < maxIterations")
    case False
    then show ?thesis using "1.prems" by (auto simp: runLoop_while.simps[of env iteration a])
  next
    case True
    obtain c a' where r: "round env (iteration + 1) a = (c, a')"
      by (cases "round env (iteration + 1) a") auto
    have qa': "Q (game a')"
      using round_preserves[where Q = Q and seed_of = seed_of and env = env
          and n = "iteration + 1", OF pres "1.prems"] r by simp
    show ?thesis
    proof (cases c)
      case Break
      then show ?thesis using True r qa' by (simp add: runLoop_while.simps[of env iteration a])
    next
      case Continue
      have "Q (game (snd (runLoop_while env (iteration + 1) a')))"
        using "1.IH"[OF True r[symmetric] Continue qa'] .
      then show ?thesis
        using True r Continue by (simp add: runLoop_while.simps[of env iteration a])
    qed
  qed
qed

lemma runLoop_game: "game (runLoop env a) = game (snd (runLoop_while env 0 a))"
  by (simp add: runLoop_def finishLoop_def Let_def onLog_fields split: prod.splits)

lemma start_preserves:
  assumes pres: "\<forall>w w'. world_step seed_of w w' \<longrightarrow> Q w \<longrightarrow> Q w'" and q: "Q (game a)"
  shows "Q (game (start env goal a))"
proof (cases "apiKey a = []")
  case True
  then show ?thesis using q by (simp add: start_def onLog_fields)
next
  case False
  let ?a4 = "(onLog (a\<lparr>isRunning := True, conversationHistory := []\<rparr>)
                (''Starting agent with goal: '' @ goal) Info)
             \<lparr>conversationHistory :=
                [\<lparr>role = User, parts = [GeminiPart (Some (systemPrompt goal)) None]\<rparr>]\<rparr>"
  have s: "start env goal a = runLoop env ?a4"
    using False by (simp add: start_def Let_def onLog_fields)
  have "Q (game ?a4)" using q by (simp add: onLog_fields)
  then have "Q (game (snd (runLoop_while env 0 ?a4)))"
    by (rule runLoop_while_preserves[where Q = Q and seed_of = seed_of, OF pres])
  then show ?thesis unfolding s runLoop_game .
qed

lemma agent_step_preserves:
  assumes pres: "\<forall>w w'. world_step seed_of w w' \<longrightarrow> Q w \<longrightarrow> Q w'"
  shows "agent_step seed_of a a' \<Longrightarrow> Q (game a) \<Longrightarrow> Q (game a')"
proof (induction rule: agent_step.induct)
  case (step_world a w')
  then show ?case using pres by auto
next
  case (step_setApiKey a key)
  then show ?case by (simp add: setApiKey_def)
next
  case (step_stop a)
  then show ?case by (simp add: stop_fields)
next
  case (step_start a env goal)
  then show ?case by (rule start_preserves[where Q = Q and seed_of = seed_of, OF pres])
next
  case (step_round a env iteration)
  then show ?case by (rule round_preserves[where Q = Q and seed_of = seed_of, OF pres])
qed

text \<open>
  C10. The \<open>isActive\<close> flag is false in the generated world and after \<open>reset\<close>; no world
  primitive, catalog operation, \<open>setApiKey\<close>, \<open>stop\<close>, \<open>start\<close> or round of the loop turns it
  on; hence it is false in every state reachable from a new agent on a fresh world.
\<close>

theorem C10_isActive_never_set:
  "\<not> isActive (agent (createWorld seed_of))
   \<and> \<not> isActive (agent (reset seed_of w))
   \<and> (world_step seed_of w w' \<and> \<not> isActive (agent w) \<longrightarrow> \<not> isActive (agent w'))
   \<and> (agent_step seed_of a a' \<and> \<not> isActive (agent (game a)) \<longrightarrow>
        \<not> isActive (agent (game a')))
   \<and> (agent_reachable seed_of a \<longrightarrow> \<not> isActive (agent (game a)))"
proof -
  have pres: "\<forall>w w'. world_step seed_of w w' \<longrightarrow> \<not> isActive (agent w) \<longrightarrow> \<not> isActive (agent w')"
    using world_step_isActive by blast
  have st: "\<And>a a'. agent_step seed_of a a' \<Longrightarrow> \<not> isActive (agent (game a)) \<Longrightarrow>
        \<not> isActive (agent (game a'))"
    by (rule agent_step_preserves[where Q = "\<lambda>w. \<not> isActive (agent w)"
          and seed_of = seed_of, OF pres])
  have re: "agent_reachable seed_of a \<Longrightarrow> \<not> isActive (agent (game a))"
    by (induction rule: agent_reachable.induct)
       (simp_all add: newAgent_def createWorld_agent st)
  show ?thesis
    using pres st[of a a'] re
    by (auto simp: createWorld_agent reset_def)
qed

theorem C10_isActive_never_set_witness:
  "agent_reachable forest_seed
     (start north_env ''Go north'' (setApiKey (newAgent (createWorld forest_seed)) ''key''))
   \<and> \<not> isActive (agent (game
     (start north_env ''Go north'' (setApiKey (newAgent (createWorld forest_seed)) ''key''))))"
proof -
  let ?a = "start north_env ''Go north'' (setApiKey (newAgent (createWorld forest_seed)) ''key'')"
  have r: "agent_reachable forest_seed ?a"
    by (rule agent_next[OF agent_next[OF agent_fresh step_setApiKey] step_start])
  show ?thesis
    using C10_isActive_never_set[where seed_of = forest_seed and a = ?a] r by blast
qed

subsection \<open>Starting without a credential\<close>

text \<open>
  C9, amended. \<open>start\<close> rejects a missing credential before any state change: it only logs
  the error, so the agent is not running afterwards exactly if it was not before, and the
  conversation and the world are untouched. \<open>start\<close> itself does not look at the goal; the
  host entry point \<open>startAgent\<close> rejects a goal or a credential that is empty after trimming,
  with only a log entry, before \<open>start\<close> is called.
\<close>

theorem C9_start_rejects_missing_credential:
  "(apiKey a = [] \<longrightarrow>
      start env goal a = a\<lparr>logged := logged a @ [(''Error: API key not provided'', Error)]\<rparr>)
   \<and> (trim goalInput = [] \<longrightarrow>
      startAgent trim env goalInput apiKeyInput a =
        a\<lparr>logged := logged a @ [(''Please enter a goal for the agent'', Error)]\<rparr>)
   \<and> (trim goalInput \<noteq> [] \<and> trim apiKeyInput = [] \<longrightarrow>
      startAgent trim env goalInput apiKeyInput a =
        a\<lparr>logged := logged a @ [(''Please enter your Gemini API key'', Error)]\<rparr>)"
  by (simp add: start_def startAgent_def onLog_def Let_def)

subsection \<open>Rounds of the loop\<close>

lemma round_one_call:
  assumes "reply env n (conversationHistory a) = Returned (Some c)"
    "extractFunctionCalls c = [call]" "\<not> stopDuringCall env n" "\<not> stopDuringPause env n"
    "executeTool (onLog a (fst (header n)) Info) (call_name call) (call_args call) = (result, a1)"
  shows "round env n a =
     (Continue,
      a1\<lparr>logged := logged a1 @
             [(call_name call @ ''('' @ stringify env (call_args call) @ ''): '' @ message result,
               if success result then Success else Error)],
         conversationHistory := conversationHistory a1 @
             [\<lparr>role = Model, parts = [GeminiPart None (Some call)]\<rparr>,
              \<lparr>role = User, parts = [GeminiFunctionResponse (call_name call) result]\<rparr>]\<rparr>)"
  using assms
  by (simp add: round_def Let_def onLog_fields onLog_def[of a1])

lemma round_unknown:
  assumes "reply env n (conversationHistory a) = Returned (Some c)"
    "extractFunctionCalls c = [call]" "\<not> stopDuringCall env n" "\<not> stopDuringPause env n"
    "call_name call \<notin> set toolNames"
  shows "round env n a =
     (Continue,
      a\<lparr>logged := logged a @
             [header n,
              (call_name call @ ''('' @ stringify env (call_args call) @ ''): Unknown tool: ''
                 @ call_name call, Error)],
         conversationHistory := conversationHistory a @
             [\<lparr>role = Model, parts = [GeminiPart None (Some call)]\<rparr>,
              \<lparr>role = User, parts = [GeminiFunctionResponse (call_name call)
                 \<lparr>success = False, message = ''Unknown tool: '' @ call_name call,
                  data = None\<rparr>]\<rparr>]\<rparr>)"
  unfolding round_one_call[OF assms(1-4) executeTool_unknown[OF assms(5)]]
  by (simp add: onLog_def)

lemma round_no_calls:
  assumes "reply env n (conversationHistory a) = Returned (Some c)"
    "extractFunctionCalls c = []"
  shows "round env n a =
     (Break,
      (if stopDuringCall env n then stop (onLog a (fst (header n)) Info)
       else onLog a (fst (header n)) Info)
      \<lparr>logged :=
         logged (if stopDuringCall env n then stop (onLog a (fst (header n)) Info)
                 else onLog a (fst (header n)) Info)
         @ (if extractText c \<noteq> [] then [(''Agent: '' @ extractText c, Success)] else [])
         @ [(''Agent completed its task'', Success)]\<rparr>)"
  using assms
  by (simp add: round_def Let_def onLog_fields onLog_def)

lemma runLoop_while_bound:
  "i \<le> maxIterations \<Longrightarrow> fst (runLoop_while env i a) \<le> maxIterations"
proof (induction env i a rule: runLoop_while.induct)
  case (1 env iteration a)
  show ?case
  proof (cases "isRunning a \<and> iteration < maxIterations")
    case False
    then show ?thesis using "1.prems" by (auto simp: runLoop_while.simps[of env iteration a])
  next
    case True
    obtain c a' where r: "round env (iteration + 1) a = (c, a')"
      by (cases "round env (iteration + 1) a") auto
    show ?thesis
    proof (cases c)
      case Break
      then show ?thesis using True r by (simp add: runLoop_while.simps[of env iteration a])
    next
      case Continue
      have "fst (runLoop_while env (iteration + 1) a') \<le> maxIterations"
        using "1.IH"[OF True r[symmetric] Continue] True by simp
      then show ?thesis
        using True r Continue by (simp add: runLoop_while.simps[of env iteration a])
    qed
  qed
qed

lemma runLoop_while_break:
  assumes "isRunning a" "i < maxIterations" "round env (i + 1) a = (Break, a')"
  shows "runLoop_while env i a = (i + 1, a')"
  using assms by (simp add: runLoop_while.simps[of env i a])

lemma runLoop_while_continue:
  assumes "isRunning a" "i < maxIterations" "round env (i + 1) a = (Continue, a')"
  shows "runLoop_while env i a = runLoop_while env (i + 1) a'"
  using assms by (simp add: runLoop_while.simps[of env i a])

lemma start_with_key:
  "apiKey a \<noteq> [] \<Longrightarrow>
   start env goal a =
     runLoop env
       (a\<lparr>isRunning := True,
          logged := logged a @ [(''Starting agent with goal: '' @ goal, Info)],
          conversationHistory :=
            [\<lparr>role = User, parts = [GeminiPart (Some (systemPrompt goal)) None]\<rparr>]\<rparr>)"
  by (simp add: start_def Let_def onLog_def)

subsection \<open>A run of unknown operations\<close>

lemma functionResponses_of_append:
  "functionResponses_of (xs @ ys) = functionResponses_of xs @ functionResponses_of ys"
  by (simp add: functionResponses_of_def)

lemma loop_unknown:
  assumes S1: "\<forall>n h. \<exists>c call. reply env n h = Returned (Some c)
                 \<and> extractFunctionCalls c = [call] \<and> call_name call \<notin> set toolNames"
    and S2: "\<forall>n. \<not> stopDuringCall env n \<and> \<not> stopDuringPause env n"
  shows "k = 30 - i \<Longrightarrow> i \<le> 30 \<Longrightarrow> isRunning a \<Longrightarrow>
    \<exists>new turns.
       runLoop_while env i a =
         (30, a\<lparr>logged := logged a @ new, conversationHistory := conversationHistory a @ turns\<rparr>)
     \<and> [e \<leftarrow> new. snd e = Info] = map header [i + 1..<31]
     \<and> (\<forall>e\<in>set new. snd e = Info
            \<or> (\<exists>name args. name \<notin> set toolNames
                  \<and> e = (name @ ''('' @ stringify env args @ ''): Unknown tool: '' @ name,
                         Error)))
     \<and> length new = 2 * (30 - i)
     \<and> length turns = 2 * (30 - i)
     \<and> length (functionResponses_of turns) = 30 - i
     \<and> (\<forall>r\<in>set (functionResponses_of turns). \<not> success r)"
proof (induction k arbitrary: i a)
  case 0
  then have i: "i = 30" by simp
  have "runLoop_while env i a = (30, a)"
    unfolding i by (simp add: runLoop_while.simps[of env 30 a] maxIterations_def)
  then have "runLoop_while env i a =
         (30, a\<lparr>logged := logged a @ [], conversationHistory := conversationHistory a @ []\<rparr>)"
    by simp
  moreover have "[e \<leftarrow> []. snd e = Info] = map header [i + 1..<31]" by (simp add: i)
  ultimately show ?case
    by (intro exI[of _ "[]"] conjI) (simp_all add: i functionResponses_of_def)
next
  case (Suc k)
  then have i: "i < 30" "k = 30 - (i + 1)" "i + 1 \<le> 30" by simp_all
  obtain c call where c: "reply env (i + 1) (conversationHistory a) = Returned (Some c)"
      "extractFunctionCalls c = [call]" "call_name call \<notin> set toolNames"
    using S1 by blast
  let ?u = "(call_name call @ ''('' @ stringify env (call_args call) @ ''): Unknown tool: ''
                 @ call_name call, Error)"
  let ?res = "\<lparr>success = False, message = ''Unknown tool: '' @ call_name call, data = None\<rparr>"
  let ?ts = "[\<lparr>role = Model, parts = [GeminiPart None (Some call)]\<rparr>,
              \<lparr>role = User, parts = [GeminiFunctionResponse (call_name call) ?res]\<rparr>]"
  let ?a1 = "a\<lparr>logged := logged a @ [header (i + 1), ?u],
               conversationHistory := conversationHistory a @ ?ts\<rparr>"
  have r: "round env (i + 1) a = (Continue, ?a1)"
    using round_unknown[OF c(1,2) _ _ c(3)] S2 by simp
  have run1: "isRunning ?a1" using Suc.prems(3) by simp
  obtain new turns where
    IH: "runLoop_while env (i + 1) ?a1 =
         (30, ?a1\<lparr>logged := logged ?a1 @ new,
                  conversationHistory := conversationHistory ?a1 @ turns\<rparr>)"
      "[e \<leftarrow> new. snd e = Info] = map header [i + 1 + 1..<31]"
      "\<forall>e\<in>set new. snd e = Info
            \<or> (\<exists>name args. name \<notin> set toolNames
                  \<and> e = (name @ ''('' @ stringify env args @ ''): Unknown tool: '' @ name,
                         Error))"
      "length new = 2 * (30 - (i + 1))"
      "length turns = 2 * (30 - (i + 1))"
      "length (functionResponses_of turns) = 30 - (i + 1)"
      "\<forall>r\<in>set (functionResponses_of turns). \<not> success r"
    using Suc.IH[OF i(2) i(3) run1] by blast
  have loop: "runLoop_while env i a = runLoop_while env (i + 1) ?a1"
    by (rule runLoop_while_continue[OF Suc.prems(3) _ r]) (simp add: maxIterations_def i)
  have 1: "runLoop_while env i a =
         (30, a\<lparr>logged := logged a @ ([header (i + 1), ?u] @ new),
                conversationHistory := conversationHistory a @ (?ts @ turns)\<rparr>)"
    unfolding loop IH(1) by simp
  have up: "[i + 1..<31] = (i + 1) # [i + 1 + 1..<31]"
    using i(1) by (simp add: upt_conv_Cons)
  have 2: "[e \<leftarrow> [header (i + 1), ?u] @ new. snd e = Info] = map header [i + 1..<31]"
    unfolding up using IH(2) by simp
  have 3: "\<forall>e\<in>set ([header (i + 1), ?u] @ new). snd e = Info
            \<or> (\<exists>name args. name \<notin> set toolNames
                  \<and> e = (name @ ''('' @ stringify env args @ ''): Unknown tool: '' @ name,
                         Error))"
    using IH(3) c(3) by auto
  have 4: "length ([header (i + 1), ?u] @ new) = 2 * (30 - i)"
    using IH(4) i(1) by simp
  have 5: "length (?ts @ turns) = 2 * (30 - i)"
    using IH(5) i(1) by simp
  have fr: "functionResponses_of (?ts @ turns) = ?res # functionResponses_of turns"
    by (simp add: functionResponses_of_def)
  have 6: "length (functionResponses_of (?ts @ turns)) = 30 - i"
    unfolding fr using IH(6) i(1) by simp
  have 7: "\<forall>r\<in>set (functionResponses_of (?ts @ turns)). \<not> success r"
    unfolding fr using IH(7) by simp
  show ?case
    using 1 2 3 4 5 6 7 by blast
qed

text \<open>
  C7. The loop runs at most 30 rounds: the iteration counter never exceeds
  \<open>maxIterations\<close>, which is 30. A request for an operation that the catalog does not have
  yields the outcome \<open>success = False\<close>, \<open>Unknown tool\<close>, and leaves the agent as it was.
  If, with a credential set and no stop from outside, every answer of the service requests
  exactly one unknown operation, then the run executes rounds 1 to 30 in order, each
  logging, as an error, one unknown-tool outcome that is fed back into the conversation
  with \<open>success = False\<close>; the completion message is not logged; the run ends with the
  log entry \<open>Reached maximum iterations\<close>, not running, with the world untouched.
\<close>

theorem C7_max_iterations:
  "maxIterations = 30
   \<and> fst (runLoop_while env 0 a) \<le> 30
   \<and> (\<forall>name args. name \<notin> set toolNames \<longrightarrow>
         executeTool a name args =
           (\<lparr>success = False, message = ''Unknown tool: '' @ name, data = None\<rparr>, a))
   \<and> ((\<forall>n h. \<exists>c call. reply env n h = Returned (Some c)
                 \<and> extractFunctionCalls c = [call] \<and> call_name call \<notin> set toolNames)
        \<and> (\<forall>n. \<not> stopDuringCall env n \<and> \<not> stopDuringPause env n)
        \<and> apiKey a \<noteq> [] \<longrightarrow>
        (\<exists>rounds turns.
            start env goal a =
              a\<lparr>isRunning := False,
                logged := logged a @ [(''Starting agent with goal: '' @ goal, Info)] @ rounds
                          @ [(''Reached maximum iterations'', Info)],
                conversationHistory :=
                  \<lparr>role = User, parts = [GeminiPart (Some (systemPrompt goal)) None]\<rparr> # turns\<rparr>
          \<and> [e \<leftarrow> rounds. snd e = Info] = map header [1..<31]
          \<and> (\<forall>e\<in>set rounds. snd e = Info
                \<or> (\<exists>name args. name \<notin> set toolNames
                      \<and> e = (name @ ''('' @ stringify env args @ ''): Unknown tool: '' @ name,
                             Error)))
          \<and> length rounds = 60
          \<and> (''Agent completed its task'', Success) \<notin> set rounds
          \<and> length turns = 60
          \<and> length (functionResponses_of turns) = 30
          \<and> (\<forall>r\<in>set (functionResponses_of turns). \<not> success r)))"
proof -
  have 1: "maxIterations = 30" by (simp add: maxIterations_def)
  have 2: "fst (runLoop_while env 0 a) \<le> 30"
    using runLoop_while_bound[of 0 env a] by (simp add: maxIterations_def)
  have 3: "\<forall>name args. name \<notin> set toolNames \<longrightarrow>
         executeTool a name args =
           (\<lparr>success = False, message = ''Unknown tool: '' @ name, data = None\<rparr>, a)"
    by (simp add: executeTool_unknown)
  have 4: "\<exists>rounds turns.
            start env goal a =
              a\<lparr>isRunning := False,
                logged := logged a @ [(''Starting agent with goal: '' @ goal, Info)] @ rounds
                          @ [(''Reached maximum iterations'', Info)],
                conversationHistory :=
                  \<lparr>role = User, parts = [GeminiPart (Some (systemPrompt goal)) None]\<rparr> # turns\<rparr>
          \<and> [e \<leftarrow> rounds. snd e = Info] = map header [1..<31]
          \<and> (\<forall>e\<in>set rounds. snd e = Info
                \<or> (\<exists>name args. name \<notin> set toolNames
                      \<and> e = (name @ ''('' @ stringify env args @ ''): Unknown tool: '' @ name,
                             Error)))
          \<and> length rounds = 60
          \<and> (''Agent completed its task'', Success) \<notin> set rounds
          \<and> length turns = 60
          \<and> length (functionResponses_of turns) = 30
          \<and> (\<forall>r\<in>set (functionResponses_of turns). \<not> success r)"
    if S1: "\<forall>n h. \<exists>c call. reply env n h = Returned (Some c)
                 \<and> extractFunctionCalls c = [call] \<and> call_name call \<notin> set toolNames"
      and S2: "\<forall>n. \<not> stopDuringCall env n \<and> \<not> stopDuringPause env n"
      and key: "apiKey a \<noteq> []"
  proof -
    let ?seed = "\<lparr>role = User, parts = [GeminiPart (Some (systemPrompt goal)) None]\<rparr>"
    let ?a4 = "a\<lparr>isRunning := True,
                 logged := logged a @ [(''Starting agent with goal: '' @ goal, Info)],
                 conversationHistory := [?seed]\<rparr>"
    have run: "isRunning ?a4" by simp
    obtain new turns where
      L: "runLoop_while env 0 ?a4 =
           (30, ?a4\<lparr>logged := logged ?a4 @ new,
                    conversationHistory := conversationHistory ?a4 @ turns\<rparr>)"
        "[e \<leftarrow> new. snd e = Info] = map header [0 + 1..<31]"
        "\<forall>e\<in>set new. snd e = Info
            \<or> (\<exists>name args. name \<notin> set toolNames
                  \<and> e = (name @ ''('' @ stringify env args @ ''): Unknown tool: '' @ name,
                         Error))"
        "length new = 2 * (30 - 0)"
        "length turns = 2 * (30 - 0)"
        "length (functionResponses_of turns) = 30 - 0"
        "\<forall>r\<in>set (functionResponses_of turns). \<not> success r"
      using loop_unknown[OF S1 S2 refl, of 0 ?a4] run by blast
    have st: "start env goal a =
              a\<lparr>isRunning := False,
                logged := logged a @ [(''Starting agent with goal: '' @ goal, Info)] @ new
                          @ [(''Reached maximum iterations'', Info)],
                conversationHistory := ?seed # turns\<rparr>"
      unfolding start_with_key[OF key] runLoop_def L(1)
      by (simp add: finishLoop_def maxIterations_def onLog_def)
    have nc: "(''Agent completed its task'', Success) \<notin> set new"
      using L(3) by auto
    show ?thesis
      using st L(2-7) nc by (intro exI[of _ new] exI[of _ turns]) simp
  qed
  show ?thesis using 1 2 3 4 by blast
qed

theorem C7_max_iterations_witness:
  "apiKey (setApiKey (newAgent (createWorld forest_seed)) ''key'') \<noteq> []
   \<and> \<not> success (fst (executeTool (setApiKey (newAgent (createWorld forest_seed)) ''key'')
                          ''fly'' []))
   \<and> \<not> isRunning (start unknown_env ''Fly'' (setApiKey (newAgent (createWorld forest_seed)) ''key''))
   \<and> game (start unknown_env ''Fly'' (setApiKey (newAgent (createWorld forest_seed)) ''key''))
       = createWorld forest_seed
   \<and> last (logged (start unknown_env ''Fly''
         (setApiKey (newAgent (createWorld forest_seed)) ''key'')))
       = (''Reached maximum iterations'', Info)
   \<and> length (logged (start unknown_env ''Fly''
         (setApiKey (newAgent (createWorld forest_seed)) ''key''))) = 62
   \<and> (''Agent completed its task'', Success) \<notin> set (logged (start unknown_env ''Fly''
         (setApiKey (newAgent (createWorld forest_seed)) ''key'')))
   \<and> length (conversationHistory (start unknown_env ''Fly''
         (setApiKey (newAgent (createWorld forest_seed)) ''key''))) = 61"
proof -
  let ?a = "setApiKey (newAgent (createWorld forest_seed)) ''key''"
  have f: "''fly'' \<notin> set toolNames" by (simp add: toolNames_def)
  have k: "apiKey ?a \<noteq> []" "logged ?a = []" "game ?a = createWorld forest_seed"
    by (simp_all add: setApiKey_def newAgent_def)
  have S1: "\<forall>n h. \<exists>c call. reply unknown_env n h = Returned (Some c)
                 \<and> extractFunctionCalls c = [call] \<and> call_name call \<notin> set toolNames"
    using f by (simp add: unknown_env_def extractFunctionCalls_def)
  have S2: "\<forall>n. \<not> stopDuringCall unknown_env n \<and> \<not> stopDuringPause unknown_env n"
    by (simp add: unknown_env_def)
  note c = C7_max_iterations[of unknown_env ?a "''Fly''"]
  have u: "\<not> success (fst (executeTool ?a ''fly'' []))"
    using c[THEN conjunct2, THEN conjunct2, THEN conjunct1] f by simp
  obtain rounds turns where
    st: "start unknown_env ''Fly'' ?a =
              ?a\<lparr>isRunning := False,
                logged := logged ?a @ [(''Starting agent with goal: '' @ ''Fly'', Info)] @ rounds
                          @ [(''Reached maximum iterations'', Info)],
                conversationHistory :=
                  \<lparr>role = User, parts = [GeminiPart (Some (systemPrompt ''Fly'')) None]\<rparr> # turns\<rparr>"
    and l: "length rounds = 60" "(''Agent completed its task'', Success) \<notin> set rounds"
      "length turns = 60"
    using c[THEN conjunct2, THEN conjunct2, THEN conjunct2] S1 S2 k(1) by blast
  show ?thesis
    unfolding st using k u l by simp
qed

subsection \<open>A round without operations\<close>




subsection \<open>Starting with an empty goal\<close>

text \<open>
  C9, as stated, fails for the goal: with a credential set, \<open>start\<close> with the empty goal
  runs the loop. Here the first answer requests a move to the north: afterwards the
  conversation holds three turns and the agent has moved from (10, 10) to (10, 9).
\<close>

theorem C9_empty_goal_counterexample:
  "apiKey (setApiKey (newAgent (createWorld forest_seed)) ''key'') \<noteq> []
   \<and> position (agent (game (setApiKey (newAgent (createWorld forest_seed)) ''key'')))
       = \<lparr>px = 10, py = 10\<rparr>
   \<and> position (agent (game
        (start north_env [] (setApiKey (newAgent (createWorld forest_seed)) ''key''))))
       = \<lparr>px = 10, py = 9\<rparr>
   \<and> length (conversationHistory
        (start north_env [] (setApiKey (newAgent (createWorld forest_seed)) ''key''))) = 3"
proof -
  let ?w0 = "createWorld forest_seed"
  let ?w1 = "?w0\<lparr>agent := (agent ?w0)\<lparr>position := \<lparr>px = 10, py = 9\<rparr>\<rparr>\<rparr>"
  let ?a = "setApiKey (newAgent ?w0) ''key''"
  let ?seed = "\<lparr>role = User, parts = [GeminiPart (Some (systemPrompt [])) None]\<rparr>"
  let ?a4 = "?a\<lparr>isRunning := True,
                logged := logged ?a @ [(''Starting agent with goal: '' @ [], Info)],
                conversationHistory := [?seed]\<rparr>"
  let ?call = "GeminiFunctionCall ''move'' [(''direction'', ''north'')]"
  let ?c1 = "\<lparr>role = Model, parts = [GeminiPart None (Some ?call)]\<rparr>"
  let ?c2 = "\<lparr>role = Model, parts = [GeminiPart (Some ''Done.'') None]\<rparr>"
  have k: "apiKey ?a \<noteq> []" "game ?a = ?w0" by (simp_all add: setApiKey_def newAgent_def)
  have v: "isValidPosition \<lparr>px = 10, py = 9\<rparr>" by (simp add: isValidPosition_def gridSize_def)
  have mv: "snd (move ?w0 ''north'') = ?w1"
    by (simp add: move_snd validDirections_def adjacent_def createWorld_agent
          setAgentPosition_def v createWorld_tile[OF v] tile_3_20)
  have e: "executeTool (onLog ?a4 (fst (header 1)) Info) (call_name ?call) (call_args ?call) =
      (fst (move ?w0 ''north''), (onLog ?a4 (fst (header 1)) Info)\<lparr>game := ?w1\<rparr>)"
    by (simp add: executeTool_cases arg_def onLog_fields k mv)
  obtain a5 where r1: "round north_env (0 + 1) ?a4 = (Continue, a5)"
    and a5: "game a5 = ?w1" "isRunning a5" "length (conversationHistory a5) = 3"
    using round_one_call[of north_env 1 ?a4 ?c1 ?call, OF _ _ _ _ e]
    by (simp add: north_env_def extractFunctionCalls_def onLog_fields)
  have l1: "runLoop_while north_env 0 ?a4 = runLoop_while north_env (0 + 1) a5"
    by (rule runLoop_while_continue[OF _ _ r1]) (simp_all add: maxIterations_def)
  have h2: "reply north_env (1 + 1) (conversationHistory a5) = Returned (Some ?c2)"
    "extractFunctionCalls ?c2 = []"
    by (simp_all add: north_env_def extractFunctionCalls_def)
  obtain a6 where r2: "round north_env (1 + 1) a5 = (Break, a6)"
    and a6: "game a6 = game a5" "conversationHistory a6 = conversationHistory a5"
    using round_no_calls[OF h2] by (simp add: onLog_fields stop_fields)
  have l2: "runLoop_while north_env (0 + 1) a5 = (1 + 1, a6)"
    using runLoop_while_break[OF a5(2) _ r2] by (simp add: maxIterations_def)
  have st: "start north_env [] ?a = finishLoop (1 + 1, a6)"
    unfolding start_with_key[OF k(1)] runLoop_def l1 l2 ..
  have f: "game (finishLoop (1 + 1, a6)) = game a6"
    "conversationHistory (finishLoop (1 + 1, a6)) = conversationHistory a6"
    by (simp_all add: finishLoop_def maxIterations_def)
  show ?thesis
    unfolding st f a6 using a5 k by (simp add: createWorld_agent)
qed

theorem C9_start_rejects_missing_credential_witness:
  "apiKey (newAgent (createWorld forest_seed)) = []
   \<and> start north_env ''Go north'' (newAgent (createWorld forest_seed)) =
       (newAgent (createWorld forest_seed))
         \<lparr>logged := [(''Error: API key not provided'', Error)]\<rparr>
   \<and> startAgent (\<lambda>s. s) north_env [] ''key'' (newAgent (createWorld forest_seed)) =
       (newAgent (createWorld forest_seed))
         \<lparr>logged := [(''Please enter a goal for the agent'', Error)]\<rparr>
   \<and> startAgent (\<lambda>s. s) north_env ''Go north'' [] (newAgent (createWorld forest_seed)) =
       (newAgent (createWorld forest_seed))
         \<lparr>logged := [(''Please enter your Gemini API key'', Error)]\<rparr>"
proof -
  let ?a = "newAgent (createWorld forest_seed)"
  have k: "apiKey ?a = []" "logged ?a = []" by (simp_all add: newAgent_def)
  note c = C9_start_rejects_missing_credential[of ?a north_env _ "\<lambda>s. s"]
  have 1: "start north_env ''Go north'' ?a = ?a\<lparr>logged := [(''Error: API key not provided'', Error)]\<rparr>"
    using c[of "''Go north''", THEN conjunct1] k by simp
  have 2: "startAgent (\<lambda>s. s) north_env [] ''key'' ?a =
       ?a\<lparr>logged := [(''Please enter a goal for the agent'', Error)]\<rparr>"
    using c[of _ "[]" "''key''", THEN conjunct2, THEN conjunct1] k by simp
  have 3: "startAgent (\<lambda>s. s) north_env ''Go north'' [] ?a =
       ?a\<lparr>logged := [(''Please enter your Gemini API key'', Error)]\<rparr>"
    using c[of _ "''Go north''" "[]", THEN conjunct2, THEN conjunct2] k by simp
  show ?thesis using k(1) 1 2 3 by blast
qed

end
